theory Spec2Isabelle
  imports Complex_Main
begin

section \<open>Membraneless electrolyzer: model and experimental analysis\<close>

text \<open>
  A shallow embedding of \<^verbatim>\<open>code/utils/constants.py\<close>,
  \<^verbatim>\<open>code/simulations/electrolyzer_model.py\<close> and
  \<^verbatim>\<open>code/analysis/experimental_analysis.py\<close>.

  Python floats are modelled as real numbers: rounding and overflow of IEEE-754
  arithmetic are outside the model, except in \<open>calculate_energy_efficiency\<close>, whose
  products and quotient are modelled as the double-precision operations they are.
  Where Python raises, the model returns an \<open>error\<close>; where numpy yields a
  non-finite entry instead of raising (an element-wise division by zero), the model
  returns \<open>None\<close> for that entry.
  A method of a class takes the instance \<open>self\<close> and returns its value together
  with the instance as the call leaves it.
\<close>

subsection \<open>Errors\<close>

text \<open>
  The exceptions that the modelled code can raise. \<open>ValueError\<close> carries the message
  of the \<^verbatim>\<open>raise\<close> statement when the repository raises it, and the name of the
  library routine when a library does.
\<close>

datatype error =
    ZeroDivisionError
  | ValueError string
  | TypeError
  | RuntimeError
  | FileNotFoundError string

subsection \<open>constants.py\<close>

definition FARADAY_CONSTANT :: real where
  "FARADAY_CONSTANT = 964853329 / 10000"

definition GAS_CONSTANT :: real where
  "GAS_CONSTANT = 83144598 / 10000000"

definition STANDARD_HYDROGEN_POTENTIAL :: real where
  "STANDARD_HYDROGEN_POTENTIAL = 0"

definition STANDARD_OXYGEN_POTENTIAL :: real where
  "STANDARD_OXYGEN_POTENTIAL = 1229 / 1000"

definition THEORETICAL_CELL_VOLTAGE :: real where
  "THEORETICAL_CELL_VOLTAGE = 1229 / 1000"

subsection \<open>The parameter set and the model instance\<close>

text \<open>
  The dictionary \<^verbatim>\<open>self.params\<close> with its eleven keys. The key
  \<^verbatim>\<open>'length'\<close> is the field \<open>length_m\<close>.
\<close>

record parameters =
  length_m :: real
  width :: real
  height :: real
  temperature :: real
  pressure :: real
  inlet_velocity :: real
  anode_i0 :: real
  cathode_i0 :: real
  alpha_a :: real
  alpha_c :: real
  roughness :: real

text \<open>
  The dictionary \<^verbatim>\<open>self.results\<close>; the key \<^verbatim>\<open>'voltage'\<close> is the field
  \<open>res_voltage\<close>, and so on. The entries of \<open>res_current_density\<close> and
  \<open>res_efficiency\<close> are element-wise numpy quotients, \<open>None\<close> where the divisor is
  zero.
\<close>

record iv_results =
  res_voltage :: "real list"
  res_current :: "real list"
  res_current_density :: "real option list"
  res_power :: "real list"
  res_efficiency :: "real option list"

record model =
  params :: parameters
  results :: "iv_results option"

definition get_default_parameters :: parameters where
  "get_default_parameters =
     \<lparr> length_m = 5 / 100, width = 2 / 100, height = 5 / 1000,
       temperature = 29815 / 100, pressure = 101325, inlet_velocity = 1 / 100,
       anode_i0 = 1 / 1000, cathode_i0 = 1 / 100,
       alpha_a = 1 / 2, alpha_c = 1 / 2, roughness = 100 \<rparr>"

text \<open>\<^verbatim>\<open>__init__\<close>: \<open>None\<close> stands for an omitted (or empty) dictionary.\<close>

definition init :: "parameters option \<Rightarrow> model" where
  "init ps =
     \<lparr> params = (case ps of None \<Rightarrow> get_default_parameters | Some p \<Rightarrow> p),
       results = None \<rparr>"

subsection \<open>Butler-Volmer kinetics\<close>

text \<open>
  \<^verbatim>\<open>butler_volmer\<close>. The quotient \<^verbatim>\<open>FARADAY_CONSTANT / (GAS_CONSTANT * T)\<close> is a
  division of Python floats, which raises \<^verbatim>\<open>ZeroDivisionError\<close> on a zero divisor.
\<close>

definition butler_volmer ::
  "model \<Rightarrow> real \<Rightarrow> real \<Rightarrow> real \<Rightarrow> int \<Rightarrow> (error + real) \<times> model" where
  "butler_volmer self overpotential i0 alpha n =
     (if GAS_CONSTANT * temperature (params self) = 0 then (Inl ZeroDivisionError, self)
      else
        let F_RT = FARADAY_CONSTANT / (GAS_CONSTANT * temperature (params self));
            anodic = exp (alpha * real_of_int n * F_RT * overpotential);
            cathodic = exp (- (1 - alpha) * real_of_int n * F_RT * overpotential)
        in (Inr (i0 * roughness (params self) * (anodic - cathodic)), self))"


subsection \<open>numpy routines used by the model\<close>

text \<open>
  Element-wise division of numpy floats: a zero divisor gives \<^verbatim>\<open>nan\<close> or
  \<^verbatim>\<open>inf\<close> with a warning, and no exception.
\<close>

definition np_divide :: "real \<Rightarrow> real \<Rightarrow> real option" where
  "np_divide x y = (if y = 0 then None else Some (x / y))"

text \<open>
  \<^verbatim>\<open>np.linspace(start, stop, num)\<close> with the end point included: \<open>num\<close> samples
  \<open>start + i * step\<close> with \<open>step = (stop - start) / (num - 1)\<close>; the single sample
  of \<open>num = 1\<close> is \<open>start\<close>; a negative \<open>num\<close> raises \<^verbatim>\<open>ValueError\<close>.
\<close>

definition np_linspace :: "real \<Rightarrow> real \<Rightarrow> int \<Rightarrow> error + real list" where
  "np_linspace start stop num =
     (if num < 0 then Inl (ValueError ''np.linspace'')
      else Inr (map (\<lambda>i. if num = 1 then start
                          else start + real i * ((stop - start) / real_of_int (num - 1)))
                    [0 ..< nat num]))"

subsection \<open>Overpotentials\<close>

text \<open>
  \<^verbatim>\<open>calculate_overpotentials\<close>. The dictionary of concentrations is a map from the
  species name. \<^verbatim>\<open>np.log\<close> is the real logarithm; of a concentration that is not
  positive numpy returns \<^verbatim>\<open>nan\<close> or \<^verbatim>\<open>-inf\<close> (no exception), a value the
  real-valued model does not have, so nothing is proved from the value of \<open>ln\<close> there.
\<close>

definition calculate_overpotentials ::
  "model \<Rightarrow> real \<Rightarrow> (string \<rightharpoonup> real) \<Rightarrow> (real \<times> real) \<times> model" where
  "calculate_overpotentials self voltage concentrations =
     (let anode_nernst = STANDARD_OXYGEN_POTENTIAL;
          cathode_nernst =
            (case concentrations ''H+'' of
               None \<Rightarrow> STANDARD_HYDROGEN_POTENTIAL
             | Some c \<Rightarrow>
                 let RT_F = GAS_CONSTANT * temperature (params self) / FARADAY_CONSTANT
                 in STANDARD_HYDROGEN_POTENTIAL - RT_F * ln (c / 1000));
          eta_a = voltage - anode_nernst;
          eta_c = cathode_nernst - 0
      in ((eta_a, eta_c), self))"

subsection \<open>The voltage sweep\<close>

text \<open>The body of the loop of \<^verbatim>\<open>simulate_iv_curve\<close>: the total current at one voltage.\<close>

definition simulate_point :: "model \<Rightarrow> real \<Rightarrow> (error + real) \<times> model" where
  "simulate_point self voltage =
     (let concentrations = [''H+'' \<mapsto> (1 / 10000000) * 1000];
          ((eta_a, eta_c), s1) = calculate_overpotentials self voltage concentrations
      in case butler_volmer s1 eta_a (anode_i0 (params s1)) (alpha_a (params s1)) 4 of
           (Inl e, s2) \<Rightarrow> (Inl e, s2)
         | (Inr i_a, s2) \<Rightarrow>
             (case butler_volmer s2 eta_c (cathode_i0 (params s2)) (alpha_c (params s2)) 2 of
                (Inl e, s3) \<Rightarrow> (Inl e, s3)
              | (Inr i_c, s3) \<Rightarrow>
                  let current_density = min \<bar>i_a\<bar> \<bar>i_c\<bar>;
                      area = length_m (params s3) * width (params s3)
                  in (Inr (current_density * area), s3)))"

text \<open>The loop over the sampled voltages; an exception ends it.\<close>

fun simulate_loop :: "model \<Rightarrow> real list \<Rightarrow> (error + real list) \<times> model" where
  "simulate_loop self [] = (Inr [], self)"
| "simulate_loop self (voltage # rest) =
     (case simulate_point self voltage of
        (Inl e, s1) \<Rightarrow> (Inl e, s1)
      | (Inr c, s1) \<Rightarrow>
          (case simulate_loop s1 rest of
             (Inl e, s2) \<Rightarrow> (Inl e, s2)
           | (Inr cs, s2) \<Rightarrow> (Inr (c # cs), s2)))"

text \<open>
  \<^verbatim>\<open>simulate_iv_curve\<close>. The argument \<open>voltage_range\<close> is \<open>None\<close> when omitted;
  the default of \<open>num_points\<close> is \<open>simulate_iv_curve_default_num_points\<close>.
\<close>

definition simulate_iv_curve_default_num_points :: int where
  "simulate_iv_curve_default_num_points = 50"

definition simulate_iv_curve ::
  "model \<Rightarrow> (real \<times> real) option \<Rightarrow> int \<Rightarrow> (error + iv_results) \<times> model" where
  "simulate_iv_curve self voltage_range num_points =
     (let vr = (case voltage_range of None \<Rightarrow> (1, 5 / 2) | Some r \<Rightarrow> r)
      in case np_linspace (fst vr) (snd vr) num_points of
           Inl e \<Rightarrow> (Inl e, self)
         | Inr voltages \<Rightarrow>
             (case simulate_loop self voltages of
                (Inl e, s) \<Rightarrow> (Inl e, s)
              | (Inr currents, s) \<Rightarrow>
                  let res =
                    \<lparr> res_voltage = voltages,
                      res_current = currents,
                      res_current_density =
                        map (\<lambda>c. np_divide c (length_m (params s) * width (params s))) currents,
                      res_power = map2 (*) voltages currents,
                      res_efficiency = map (np_divide THEORETICAL_CELL_VOLTAGE) voltages \<rparr>
                  in (Inr res, s\<lparr>results := Some res\<rparr>)))"

subsection \<open>Derived quantities\<close>

definition calculate_hydrogen_production :: "model \<Rightarrow> real \<Rightarrow> real \<times> model" where
  "calculate_hydrogen_production self current = (current / (2 * FARADAY_CONSTANT), self)"

subsection \<open>Double-precision arithmetic\<close>

text \<open>
  A value of an IEEE-754 binary64 operation: a finite double, given by its real value
  (the sign of a zero is not kept), an infinity (of either sign), or \<^verbatim>\<open>nan\<close>.
\<close>

datatype float_value = Finite real | Infinite | NaN

text \<open>Rounding of a real to the nearest integer, a tie to the even one.\<close>

definition round_half_even :: "real \<Rightarrow> int" where
  "round_half_even q =
     (let f = \<lfloor>q\<rfloor>; d = q - of_int f
      in if d < 1 / 2 then f else if 1 / 2 < d then f + 1 else if even f then f else f + 1)"

text \<open>
  Rounding of the exact result of an operation to binary64, to nearest and ties to
  even: 53 significant bits at the exponent \<open>e\<close> of the value, the spacing \<open>2^-1074\<close> of
  the subnormal numbers below \<open>2^-1022\<close>, and an infinity when the rounded magnitude
  reaches \<open>2^1024\<close>.
\<close>

definition double_round :: "real \<Rightarrow> float_value" where
  "double_round x =
     (if x = 0 then Finite 0
      else
        let a = \<bar>x\<bar>;
            e = max \<lfloor>log 2 a\<rfloor> (- 1022);
            ulp = 2 powr of_int (e - 52);
            y = of_int (round_half_even (a / ulp)) * ulp
        in if 2 powr 1024 \<le> y then Infinite else Finite (sgn x * y))"

fun float_mult :: "float_value \<Rightarrow> float_value \<Rightarrow> float_value" where
  "float_mult (Finite x) (Finite y) = double_round (x * y)"
| "float_mult (Finite x) Infinite = (if x = 0 then NaN else Infinite)"
| "float_mult Infinite (Finite y) = (if y = 0 then NaN else Infinite)"
| "float_mult Infinite Infinite = Infinite"
| "float_mult NaN _ = NaN"
| "float_mult _ NaN = NaN"

text \<open>The IEEE quotient, which never raises: numpy's division.\<close>

fun ieee_divide :: "float_value \<Rightarrow> float_value \<Rightarrow> float_value" where
  "ieee_divide (Finite x) (Finite y) =
     (if y = 0 then (if x = 0 then NaN else Infinite) else double_round (x / y))"
| "ieee_divide (Finite x) Infinite = Finite 0"
| "ieee_divide Infinite (Finite y) = Infinite"
| "ieee_divide Infinite Infinite = NaN"
| "ieee_divide NaN _ = NaN"
| "ieee_divide _ NaN = NaN"

text \<open>
  The operator \<^verbatim>\<open>/\<close> on two Python floats raises \<^verbatim>\<open>ZeroDivisionError\<close> when the
  divisor is zero; on numpy values (the entries of the arrays of a result) it is the
  IEEE quotient.
\<close>

datatype operand_kind = PythonFloat | NumpyFloat

definition float_divide :: "operand_kind \<Rightarrow> float_value \<Rightarrow> float_value \<Rightarrow> error + float_value" where
  "float_divide kind x y =
     (if kind = PythonFloat \<and> y = Finite 0 then Inl ZeroDivisionError
      else Inr (ieee_divide x y))"

text \<open>
  \<^verbatim>\<open>calculate_energy_efficiency\<close> on two doubles \<open>voltage\<close> and \<open>current\<close> of the
  given kind: the constant is the double nearest to 1.229, each product is rounded, and
  so is their quotient.
\<close>

definition calculate_energy_efficiency ::
  "model \<Rightarrow> operand_kind \<Rightarrow> real \<Rightarrow> real \<Rightarrow> (error + float_value) \<times> model" where
  "calculate_energy_efficiency self kind voltage current =
     (let (hydrogen_rate, s1) = calculate_hydrogen_production self current;
          theoretical_power = float_mult (double_round THEORETICAL_CELL_VOLTAGE) (Finite current);
          actual_power = float_mult (Finite voltage) (Finite current)
      in (float_divide kind theoretical_power actual_power, s1))"

subsection \<open>Plotting the results\<close>

text \<open>
  \<^verbatim>\<open>plot_results\<close>: the four series handed to the axes, and the path the figure is
  saved to, if any. Drawing itself is outside the model.
\<close>

record figure =
  ax1 :: "real list \<times> real option list"
  ax2 :: "real list \<times> real list"
  ax3 :: "real list \<times> real option list"
  ax4 :: "real option list \<times> real list"
  saved_to :: "string option"

definition plot_results :: "model \<Rightarrow> string option \<Rightarrow> (error + figure) \<times> model" where
  "plot_results self save_path =
     (case results self of
        None \<Rightarrow> (Inl (ValueError ''No results to plot. Run simulation first.''), self)
      | Some r \<Rightarrow>
          let h2_rate = map (\<lambda>c. fst (calculate_hydrogen_production self c)) (res_current r)
          in (Inr \<lparr> ax1 = (res_voltage r, res_current_density r),
                    ax2 = (res_voltage r, res_power r),
                    ax3 = (res_voltage r, res_efficiency r),
                    ax4 = (res_current_density r, map (\<lambda>h. h * 1000) h2_rate),
                    saved_to = (case save_path of
                                  None \<Rightarrow> None
                                | Some path \<Rightarrow> if path = [] then None else Some path) \<rparr>,
              self))"

subsection \<open>Instances on which no simulation has run\<close>

text \<open>
  The instances that \<^verbatim>\<open>__init__\<close> and any calls of the methods other than
  \<^verbatim>\<open>simulate_iv_curve\<close> can produce.
\<close>

inductive never_simulated :: "model \<Rightarrow> bool" where
  fresh: "never_simulated (init ps)"
| after_butler_volmer:
    "never_simulated s \<Longrightarrow> never_simulated (snd (butler_volmer s eta i0 alpha n))"
| after_calculate_overpotentials:
    "never_simulated s \<Longrightarrow> never_simulated (snd (calculate_overpotentials s v c))"
| after_calculate_hydrogen_production:
    "never_simulated s \<Longrightarrow> never_simulated (snd (calculate_hydrogen_production s i))"
| after_calculate_energy_efficiency:
    "never_simulated s \<Longrightarrow> never_simulated (snd (calculate_energy_efficiency s k v i))"
| after_plot_results:
    "never_simulated s \<Longrightarrow> never_simulated (snd (plot_results s save_path))"

section \<open>Experimental analysis\<close>

subsection \<open>Tables and the file-reading collaborator\<close>

text \<open>
  The rows of the two data frames, with the columns the analysis reads. The column
  \<^verbatim>\<open>current_density_A_m2\<close> of the hydrogen table is the field
  \<open>h2_current_density_A_m2\<close>.
\<close>

record iv_row =
  voltage_V :: real
  current_density_A_m2 :: real
  current_A :: real
  uncertainty_A :: real

record h2_row =
  h2_current_density_A_m2 :: real
  h2_production_mmol_s :: real
  faradaic_efficiency :: real
  uncertainty_efficiency :: real

text \<open>
  \<^verbatim>\<open>pd.read_csv\<close> is a collaborator outside the repository: \<open>iv_files\<close> and
  \<open>h2_files\<close> give the table that parsing the file at a path yields, if there is
  one, and \<open>reads\<close> lists the paths of all the calls made so far, in order.
\<close>

record filesystem =
  iv_files :: "string \<rightharpoonup> iv_row list"
  h2_files :: "string \<rightharpoonup> h2_row list"
  reads :: "string list"

definition read_csv_iv :: "filesystem \<Rightarrow> string \<Rightarrow> (error + iv_row list) \<times> filesystem" where
  "read_csv_iv fs filepath =
     (case iv_files fs filepath of
        None \<Rightarrow> (Inl (FileNotFoundError filepath), fs\<lparr>reads := reads fs @ [filepath]\<rparr>)
      | Some t \<Rightarrow> (Inr t, fs\<lparr>reads := reads fs @ [filepath]\<rparr>))"


text \<open>\<^verbatim>\<open>os.path.join\<close> of two components (POSIX).\<close>

definition os_path_join :: "string \<Rightarrow> string \<Rightarrow> string" where
  "os_path_join a b =
     (if b \<noteq> [] \<and> hd b = CHR ''/'' then b
      else if a = [] \<or> last a = CHR ''/'' then a @ b
      else a @ ''/'' @ b)"

subsection \<open>The analysis instance and its loaders\<close>

record analysis =
  data_path :: string
  iv_data :: "iv_row list option"
  h2_data :: "h2_row list option"


text \<open>
  A call of a method of the analysis: the value or the exception, the instance and the
  file system as the call leaves them. \<open>and_then\<close> is the sequencing of two
  statements: an exception of the first ends the method.
\<close>

type_synonym 'a outcome = "(error + 'a) \<times> analysis \<times> filesystem"

definition and_then ::
  "'a outcome \<Rightarrow> ('a \<Rightarrow> analysis \<Rightarrow> filesystem \<Rightarrow> 'b outcome) \<Rightarrow> 'b outcome" where
  "and_then r f = (case r of (Inl e, s, fs) \<Rightarrow> (Inl e, s, fs) | (Inr x, s, fs) \<Rightarrow> f x s fs)"

definition load_iv_data_default_filename :: string where
  "load_iv_data_default_filename = ''current_voltage_measurements.csv''"


definition load_iv_data :: "string \<Rightarrow> analysis \<Rightarrow> filesystem \<Rightarrow> iv_row list outcome" where
  "load_iv_data filename self fs =
     (let filepath = os_path_join (data_path self) filename
      in case read_csv_iv fs filepath of
           (Inl e, fs1) \<Rightarrow> (Inl e, self, fs1)
         | (Inr t, fs1) \<Rightarrow> (Inr t, self\<lparr>iv_data := Some t\<rparr>, fs1))"


text \<open>
  The statement \<^verbatim>\<open>if self.iv_data is None: self.load_iv_data()\<close> that opens the
  methods below; its value here is the table that \<^verbatim>\<open>self.iv_data\<close> then holds.
\<close>

definition ensure_iv_data :: "analysis \<Rightarrow> filesystem \<Rightarrow> iv_row list outcome" where
  "ensure_iv_data self fs =
     (case iv_data self of
        None \<Rightarrow> load_iv_data load_iv_data_default_filename self fs
      | Some t \<Rightarrow> (Inr t, self, fs))"


subsection \<open>Interpolation\<close>

text \<open>
  Modelled from the spec: \<^verbatim>\<open>numpy.interp\<close> is a library routine that is not under
  \<^verbatim>\<open>src/\<close>. For a query within the domain of the samples it blends linearly between
  the two bracketing samples (a query equal to a sample point yields that sample's
  value); for a query outside the domain it yields the nearest boundary sample's value.
  An empty array of sample points, or arrays of different lengths, raise
  \<^verbatim>\<open>ValueError\<close>. The sample points are expected to be increasing.
\<close>

fun interp_from :: "real \<Rightarrow> real \<times> real \<Rightarrow> (real \<times> real) list \<Rightarrow> real" where
  "interp_from x (x0, y0) [] = y0"
| "interp_from x (x0, y0) ((x1, y1) # rest) =
     (if x < x1
      then (if x = x0 then y0 else (y1 - y0) / (x1 - x0) * (x - x0) + y0)
      else interp_from x (x1, y1) rest)"

definition np_interp :: "real \<Rightarrow> real list \<Rightarrow> real list \<Rightarrow> error + real" where
  "np_interp x xp fp =
     (if xp = [] then Inl (ValueError ''np.interp'')
      else if length fp \<noteq> length xp then Inl (ValueError ''np.interp'')
      else if x < hd xp then Inr (hd fp)
      else if last xp < x then Inr (last fp)
      else Inr (interp_from x (hd xp, hd fp) (zip (tl xp) (tl fp))))"

definition interpolate_current :: "real \<Rightarrow> analysis \<Rightarrow> filesystem \<Rightarrow> real outcome" where
  "interpolate_current voltage self fs =
     and_then (ensure_iv_data self fs) (\<lambda>tbl s1 fs1.
       (np_interp voltage (map voltage_V tbl) (map current_density_A_m2 tbl), s1, fs1))"


subsection \<open>Performance metrics\<close>



definition series_mean :: "real list \<Rightarrow> real option" where
  "series_mean xs = np_divide (sum_list xs) (real (length xs))"



subsection \<open>Tafel regression\<close>

text \<open>
  The model function \<^verbatim>\<open>tafel_equation\<close>; its quotient is a numpy division, without
  a value when \<open>b = 0\<close>.
\<close>

definition tafel_equation :: "real \<Rightarrow> real \<Rightarrow> real \<Rightarrow> real option" where
  "tafel_equation eta a b = map_option exp (np_divide (eta - a) b)"

text \<open>
  Modelled from the spec: \<^verbatim>\<open>scipy.optimize.curve_fit\<close> is a library routine that is
  not under \<^verbatim>\<open>src/\<close>. It fails (raises) if fewer than 2 points are given for the 2
  parameters, or if the optimizer does not converge within its iteration budget
  \<open>maxfev\<close>; otherwise it returns the fitted parameters and their covariance. The
  numerical optimizer itself is a parameter \<open>lm\<close> of the model: \<open>None\<close> is its
  failure to converge.
\<close>

type_synonym optimizer =
  "(real \<Rightarrow> real \<Rightarrow> real \<Rightarrow> real option) \<Rightarrow> real list \<Rightarrow> real list \<Rightarrow> real \<times> real \<Rightarrow> nat
     \<Rightarrow> ((real \<times> real) \<times> real list list) option"

definition curve_fit ::
  "optimizer \<Rightarrow> (real \<Rightarrow> real \<Rightarrow> real \<Rightarrow> real option) \<Rightarrow> real list \<Rightarrow> real list
     \<Rightarrow> real \<times> real \<Rightarrow> nat \<Rightarrow> error + ((real \<times> real) \<times> real list list)" where
  "curve_fit lm f xdata ydata p0 maxfev =
     (if ydata = [] then Inl (ValueError ''curve_fit'')
      else if length ydata < 2 then Inl TypeError
      else case lm f xdata ydata p0 maxfev of
             None \<Rightarrow> Inl RuntimeError
           | Some r \<Rightarrow> Inr r)"

record tafel_fit =
  fit_a :: real
  fit_b :: real
  fit_r_squared :: "real option"
  fit_covariance :: "real list list"
  fit_voltage_range :: "real \<times> real"

definition fit_tafel_equation_default_voltage_range :: "real \<times> real" where
  "fit_tafel_equation_default_voltage_range = (12 / 10, 18 / 10)"

definition fit_tafel_equation ::
  "optimizer \<Rightarrow> real \<times> real \<Rightarrow> analysis \<Rightarrow> filesystem \<Rightarrow> tafel_fit outcome" where
  "fit_tafel_equation lm voltage_range self fs =
     and_then (ensure_iv_data self fs) (\<lambda>tbl s1 fs1.
       let rows = filter (\<lambda>r. fst voltage_range \<le> voltage_V r \<and> voltage_V r \<le> snd voltage_range) tbl;
           voltage = map voltage_V rows;
           current = map current_density_A_m2 rows
       in case curve_fit lm tafel_equation voltage current (1, 1 / 10) 5000 of
            Inl e \<Rightarrow> (Inl e, s1, fs1)
          | Inr (popt, pcov) \<Rightarrow>
              let y_pred = map (\<lambda>v. tafel_equation v (fst popt) (snd popt)) voltage;
                  ss_res = map_option (\<lambda>ys. sum_list (map2 (\<lambda>c y. (c - y)\<^sup>2) current ys))
                             (those y_pred);
                  ss_tot = map_option (\<lambda>m. sum_list (map (\<lambda>c. (c - m)\<^sup>2) current))
                             (series_mean current);
                  r_squared =
                    (case (ss_res, ss_tot) of
                       (Some r, Some t) \<Rightarrow> map_option (\<lambda>q. 1 - q) (np_divide r t)
                     | _ \<Rightarrow> None)
              in (Inr \<lparr> fit_a = fst popt, fit_b = snd popt, fit_r_squared = r_squared,
                        fit_covariance = pcov, fit_voltage_range = voltage_range \<rparr>,
                  s1, fs1))"

section \<open>Properties\<close>

lemma GAS_CONSTANT_nonzero: "GAS_CONSTANT \<noteq> 0"
  by (simp add: GAS_CONSTANT_def)



lemma butler_volmer_value:
  assumes "temperature (params self) \<noteq> 0"
  shows "butler_volmer self eta i0 alpha n =
           (Inr (i0 * roughness (params self) *
                  (exp (alpha * real_of_int n
                          * (FARADAY_CONSTANT / (GAS_CONSTANT * temperature (params self))) * eta)
                   - exp (- (1 - alpha) * real_of_int n
                          * (FARADAY_CONSTANT / (GAS_CONSTANT * temperature (params self))) * eta))),
            self)"
  using assms by (simp add: butler_volmer_def Let_def GAS_CONSTANT_nonzero)



text \<open>
  Claim C9. For every exchange current density \<open>i0\<close>, charge-transfer coefficient
  \<open>alpha\<close> and electron count \<open>n\<close>, \<open>butler_volmer\<close> at overpotential 0 returns the
  current density 0 (on a model whose configured temperature is not zero): the two
  exponential terms are both 1.
\<close>

theorem butler_volmer_zero_overpotential:
  assumes "temperature (params self) \<noteq> 0"
  shows "fst (butler_volmer self 0 i0 alpha n) = Inr 0"
  using assms by (simp add: butler_volmer_def Let_def GAS_CONSTANT_nonzero)

theorem butler_volmer_zero_overpotential_witness:
  "temperature (params (init None)) \<noteq> 0 \<and>
   fst (butler_volmer (init None) 0 (1 / 1000) (1 / 2) 4) = Inr 0"
  using butler_volmer_zero_overpotential [of "init None" "1 / 1000" "1 / 2" 4]
  by (simp add: init_def get_default_parameters_def)

lemma calculate_overpotentials_self: "snd (calculate_overpotentials self v c) = self"
  by (simp add: calculate_overpotentials_def Let_def)

lemma butler_volmer_self: "snd (butler_volmer self eta i0 alpha n) = self"
  by (simp add: butler_volmer_def Let_def)

lemma butler_volmer_ok:
  assumes "temperature (params self) \<noteq> 0"
  shows "\<exists>i. butler_volmer self eta i0 alpha n = (Inr i, self)"
  using assms by (simp add: butler_volmer_def Let_def GAS_CONSTANT_nonzero)

lemma simulate_point_eq:
  assumes "temperature (params self) \<noteq> 0"
  shows "\<exists>i_a i_c.
           fst (butler_volmer self
                  (fst (fst (calculate_overpotentials self v [''H+'' \<mapsto> (1 / 10000000) * 1000])))
                  (anode_i0 (params self)) (alpha_a (params self)) 4) = Inr i_a \<and>
           fst (butler_volmer self
                  (snd (fst (calculate_overpotentials self v [''H+'' \<mapsto> (1 / 10000000) * 1000])))
                  (cathode_i0 (params self)) (alpha_c (params self)) 2) = Inr i_c \<and>
           simulate_point self v =
             (Inr (min \<bar>i_a\<bar> \<bar>i_c\<bar> * (length_m (params self) * width (params self))), self)"
proof -
  obtain eta_a eta_c where ov:
    "calculate_overpotentials self v [''H+'' \<mapsto> (1 / 10000000) * 1000] = ((eta_a, eta_c), self)"
    by (simp add: calculate_overpotentials_def Let_def)
  obtain i_a where a: "butler_volmer self eta_a (anode_i0 (params self)) (alpha_a (params self)) 4 = (Inr i_a, self)"
    using butler_volmer_ok [OF assms] by blast
  obtain i_c where c: "butler_volmer self eta_c (cathode_i0 (params self)) (alpha_c (params self)) 2 = (Inr i_c, self)"
    using butler_volmer_ok [OF assms] by blast
  have "simulate_point self v =
          (Inr (min \<bar>i_a\<bar> \<bar>i_c\<bar> * (length_m (params self) * width (params self))), self)"
    unfolding simulate_point_def using ov a c by (simp add: Let_def)
  with ov a c show ?thesis by simp
qed

lemma simulate_loop_eq:
  assumes "temperature (params self) \<noteq> 0"
  shows "\<exists>cs. simulate_loop self vs = (Inr cs, self) \<and> length cs = length vs \<and>
              (\<forall>i < length vs. simulate_point self (vs ! i) = (Inr (cs ! i), self))"
proof (induction vs)
  case Nil
  show ?case by simp
next
  case (Cons v vs)
  then obtain cs where cs: "simulate_loop self vs = (Inr cs, self)" "length cs = length vs"
    "\<forall>i < length vs. simulate_point self (vs ! i) = (Inr (cs ! i), self)" by blast
  obtain c where c: "simulate_point self v = (Inr c, self)"
    using simulate_point_eq [OF assms, of v] by blast
  have "simulate_loop self (v # vs) = (Inr (c # cs), self)"
    using c cs by simp
  moreover have "\<forall>i < length (v # vs). simulate_point self ((v # vs) ! i) = (Inr ((c # cs) ! i), self)"
    using c cs(3) by (auto simp: nth_Cons split: nat.splits)
  ultimately show ?case using cs(2) by auto
qed


lemma np_linspace_eq:
  assumes "0 \<le> N"
  shows "\<exists>vs. np_linspace lo hi N = Inr vs \<and> length vs = nat N \<and>
           (\<forall>i < nat N. vs ! i = (if N = 1 then lo
                                   else lo + real i * ((hi - lo) / real_of_int (N - 1))))"
  using assms by (simp add: np_linspace_def)

lemma simulate_iv_curve_points:
  assumes "temperature (params self) \<noteq> 0" and "0 \<le> N"
    and "(lo, hi) = (case voltage_range of None \<Rightarrow> (1, 5 / 2) | Some r \<Rightarrow> r)"
  shows "simulate_iv_curve_default_num_points = 50 \<and>
    (\<exists>res. simulate_iv_curve self voltage_range N = (Inr res, self\<lparr>results := Some res\<rparr>) \<and>
       length (res_voltage res) = nat N \<and> length (res_current res) = nat N \<and>
       (\<forall>i < nat N.
          res_voltage res ! i =
            (if N = 1 then lo else lo + real i * ((hi - lo) / real_of_int (N - 1))) \<and>
          (\<exists>eta_a eta_c i_a i_c.
             fst (calculate_overpotentials self (res_voltage res ! i)
                    [''H+'' \<mapsto> (1 / 10000000) * 1000]) = (eta_a, eta_c) \<and>
             fst (butler_volmer self eta_a (anode_i0 (params self)) (alpha_a (params self)) 4)
               = Inr i_a \<and>
             fst (butler_volmer self eta_c (cathode_i0 (params self)) (alpha_c (params self)) 2)
               = Inr i_c \<and>
             res_current res ! i
               = min \<bar>i_a\<bar> \<bar>i_c\<bar> * (length_m (params self) * width (params self)))))"
proof -
  obtain vs where vs: "np_linspace lo hi N = Inr vs" "length vs = nat N"
    "\<forall>i < nat N. vs ! i = (if N = 1 then lo else lo + real i * ((hi - lo) / real_of_int (N - 1)))"
    using np_linspace_eq [OF assms(2)] by blast
  obtain cs where cs: "simulate_loop self vs = (Inr cs, self)" "length cs = length vs"
    "\<forall>i < length vs. simulate_point self (vs ! i) = (Inr (cs ! i), self)"
    using simulate_loop_eq [OF assms(1)] by blast
  define res where "res =
    \<lparr> res_voltage = vs, res_current = cs,
      res_current_density =
        map (\<lambda>c. np_divide c (length_m (params self) * width (params self))) cs,
      res_power = map2 (*) vs cs,
      res_efficiency = map (np_divide THEORETICAL_CELL_VOLTAGE) vs \<rparr>"
  have lohi: "fst (case voltage_range of None \<Rightarrow> (1, 5 / 2) | Some r \<Rightarrow> r) = lo"
             "snd (case voltage_range of None \<Rightarrow> (1, 5 / 2) | Some r \<Rightarrow> r) = hi"
    using assms(3) by (metis fst_conv, metis snd_conv)
  have run: "simulate_iv_curve self voltage_range N = (Inr res, self\<lparr>results := Some res\<rparr>)"
    unfolding simulate_iv_curve_def Let_def lohi using vs(1) cs(1) by (simp add: res_def)
  have pts: "\<exists>eta_a eta_c i_a i_c.
             fst (calculate_overpotentials self (res_voltage res ! i)
                    [''H+'' \<mapsto> (1 / 10000000) * 1000]) = (eta_a, eta_c) \<and>
             fst (butler_volmer self eta_a (anode_i0 (params self)) (alpha_a (params self)) 4)
               = Inr i_a \<and>
             fst (butler_volmer self eta_c (cathode_i0 (params self)) (alpha_c (params self)) 2)
               = Inr i_c \<and>
             res_current res ! i
               = min \<bar>i_a\<bar> \<bar>i_c\<bar> * (length_m (params self) * width (params self))"
    if "i < nat N" for i
  proof -
    from that vs(2) cs(3) have p: "simulate_point self (vs ! i) = (Inr (cs ! i), self)" by simp
    obtain i_a i_c where ic:
      "fst (butler_volmer self
              (fst (fst (calculate_overpotentials self (vs ! i) [''H+'' \<mapsto> (1 / 10000000) * 1000])))
              (anode_i0 (params self)) (alpha_a (params self)) 4) = Inr i_a"
      "fst (butler_volmer self
              (snd (fst (calculate_overpotentials self (vs ! i) [''H+'' \<mapsto> (1 / 10000000) * 1000])))
              (cathode_i0 (params self)) (alpha_c (params self)) 2) = Inr i_c"
      "simulate_point self (vs ! i) =
         (Inr (min \<bar>i_a\<bar> \<bar>i_c\<bar> * (length_m (params self) * width (params self))), self)"
      using simulate_point_eq [OF assms(1), of "vs ! i"] by blast
    from p ic(3) have "cs ! i = min \<bar>i_a\<bar> \<bar>i_c\<bar> * (length_m (params self) * width (params self))"
      by simp
    with ic(1,2) show ?thesis
      by (intro exI [of _ "fst (fst (calculate_overpotentials self (vs ! i) [''H+'' \<mapsto> (1 / 10000000) * 1000]))"]
                exI [of _ "snd (fst (calculate_overpotentials self (vs ! i) [''H+'' \<mapsto> (1 / 10000000) * 1000]))"]
                exI [of _ i_a] exI [of _ i_c]) (simp add: res_def)
  qed
  have "length (res_voltage res) = nat N" "length (res_current res) = nat N"
    using vs(2) cs(2) by (simp_all add: res_def)
  moreover have "\<forall>i < nat N. res_voltage res ! i =
            (if N = 1 then lo else lo + real i * ((hi - lo) / real_of_int (N - 1)))"
    using vs(3) by (simp add: res_def)
  ultimately show ?thesis
    using run pts by (auto simp: simulate_iv_curve_default_num_points_def)
qed

text \<open>
  Claim C1. For every sweep with range \<open>[lo, hi]\<close> (\<open>[1.0, 2.5]\<close> when omitted) and
  \<open>N \<ge> 0\<close> points (50 by default), on a model whose temperature is not zero,
  \<open>simulate_iv_curve\<close> returns and stores a result with \<open>N\<close> equally spaced voltages
  \<open>lo + i * (hi - lo) / (N - 1)\<close>; at each of them the total current is
  \<open>min \<bar>i_a\<bar> \<bar>i_c\<bar> * (length * width)\<close>, where \<open>i_a\<close> and \<open>i_c\<close> are the
  Butler-Volmer current densities with 4 and 2 electrons at the anode and cathode
  overpotentials computed for the H+ concentration \<open>1e-7 * 1000\<close>.
\<close>

theorem simulate_iv_curve_sweep:
  assumes "temperature (params self) \<noteq> 0" and "0 \<le> N"
    and "(lo, hi) = (case voltage_range of None \<Rightarrow> (1, 5 / 2) | Some r \<Rightarrow> r)"
  shows "simulate_iv_curve_default_num_points = 50 \<and>
    (\<exists>res. simulate_iv_curve self voltage_range N = (Inr res, self\<lparr>results := Some res\<rparr>) \<and>
       length (res_voltage res) = nat N \<and> length (res_current res) = nat N \<and>
       (\<forall>i < nat N.
          res_voltage res ! i =
            (if N = 1 then lo else lo + real i * ((hi - lo) / real_of_int (N - 1))) \<and>
          (\<exists>eta_a eta_c i_a i_c.
             fst (calculate_overpotentials self (res_voltage res ! i)
                    [''H+'' \<mapsto> (1 / 10000000) * 1000]) = (eta_a, eta_c) \<and>
             fst (butler_volmer self eta_a (anode_i0 (params self)) (alpha_a (params self)) 4)
               = Inr i_a \<and>
             fst (butler_volmer self eta_c (cathode_i0 (params self)) (alpha_c (params self)) 2)
               = Inr i_c \<and>
             res_current res ! i
               = min \<bar>i_a\<bar> \<bar>i_c\<bar> * (length_m (params self) * width (params self)))))"
  using simulate_iv_curve_points [OF assms] .

theorem simulate_iv_curve_sweep_witness:
  "temperature (params (init None)) \<noteq> 0 \<and> (0::int) \<le> 50 \<and>
   (\<exists>res. simulate_iv_curve (init None) None 50
             = (Inr res, (init None)\<lparr>results := Some res\<rparr>) \<and>
          length (res_voltage res) = 50 \<and> res_voltage res ! 0 = 1 \<and>
          res_voltage res ! 49 = 5 / 2)"
proof -
  have t: "temperature (params (init None)) \<noteq> 0"
    by (simp add: init_def get_default_parameters_def)
  have r: "((1::real), (5 / 2 :: real)) = (case (None :: (real \<times> real) option) of None \<Rightarrow> (1, 5 / 2) | Some r \<Rightarrow> r)"
    by simp
  obtain res where res: "simulate_iv_curve (init None) None 50
             = (Inr res, (init None)\<lparr>results := Some res\<rparr>)"
     "length (res_voltage res) = nat 50"
     "\<forall>i < nat 50. res_voltage res ! i =
            (if (50::int) = 1 then 1 else 1 + real i * ((5 / 2 - 1) / real_of_int (50 - 1)))"
    using simulate_iv_curve_sweep [OF t _ r, of 50] by auto
  from res(3) have "res_voltage res ! 0 = 1" "res_voltage res ! 49 = 5 / 2" by simp_all
  with res(1,2) t show ?thesis by auto
qed

subsection \<open>The cathode overpotential\<close>

text \<open>
  Claim C10. For every applied voltage and every concentration state, the cathode
  overpotential returned by \<open>calculate_overpotentials\<close> is the same for any two
  voltages, the anode overpotential is the voltage minus the standard oxygen potential,
  and so the cathode Butler-Volmer current density of the sweep is the same at every
  sampled voltage.
\<close>

theorem cathode_overpotential_independent_of_voltage:
  "snd (fst (calculate_overpotentials self v1 concentrations))
     = snd (fst (calculate_overpotentials self v2 concentrations)) \<and>
   fst (fst (calculate_overpotentials self v1 concentrations)) = v1 - STANDARD_OXYGEN_POTENTIAL \<and>
   fst (butler_volmer self (snd (fst (calculate_overpotentials self v1 concentrations)))
          (cathode_i0 (params self)) (alpha_c (params self)) 2)
     = fst (butler_volmer self (snd (fst (calculate_overpotentials self v2 concentrations)))
          (cathode_i0 (params self)) (alpha_c (params self)) 2)"
  by (simp add: calculate_overpotentials_def Let_def)

subsection \<open>The fields of a simulated result\<close>

lemma simulate_point_self: "snd (simulate_point self v) = self"
  by (simp add: simulate_point_def calculate_overpotentials_def butler_volmer_def Let_def)

lemma simulate_loop_self: "snd (simulate_loop self vs) = self"
proof (induction vs)
  case Nil
  show ?case by simp
next
  case (Cons v vs)
  obtain r where r: "simulate_point self v = (r, self)"
    by (metis simulate_point_self prod.collapse)
  obtain rs where rs: "simulate_loop self vs = (rs, self)"
    by (metis Cons.IH prod.collapse)
  show ?case by (simp add: r rs split: sum.splits)
qed

lemma simulate_iv_curve_fields:
  assumes "fst (simulate_iv_curve self voltage_range N) = Inr res"
  shows "res_current_density res
           = map (\<lambda>c. np_divide c (length_m (params self) * width (params self))) (res_current res)"
    and "res_efficiency res = map (np_divide THEORETICAL_CELL_VOLTAGE) (res_voltage res)"
    and "res_power res = map2 (*) (res_voltage res) (res_current res)"
proof -
  define vr where "vr = (case voltage_range of None \<Rightarrow> (1, 5 / 2) | Some r \<Rightarrow> r)"
  obtain vs where vs: "np_linspace (fst vr) (snd vr) N = Inr vs"
    using assms by (cases "np_linspace (fst vr) (snd vr) N")
      (simp_all add: simulate_iv_curve_def Let_def vr_def)
  obtain r where l: "simulate_loop self vs = (r, self)"
    by (metis simulate_loop_self prod.collapse)
  obtain cs where cs: "r = Inr cs"
    using assms vs l by (cases r) (simp_all add: simulate_iv_curve_def Let_def vr_def)
  have "res = \<lparr> res_voltage = vs, res_current = cs,
      res_current_density =
        map (\<lambda>c. np_divide c (length_m (params self) * width (params self))) cs,
      res_power = map2 (*) vs cs,
      res_efficiency = map (np_divide THEORETICAL_CELL_VOLTAGE) vs \<rparr>"
    using assms vs l cs by (simp add: simulate_iv_curve_def Let_def vr_def)
  then show "res_current_density res
           = map (\<lambda>c. np_divide c (length_m (params self) * width (params self))) (res_current res)"
    and "res_efficiency res = map (np_divide THEORETICAL_CELL_VOLTAGE) (res_voltage res)"
    and "res_power res = map2 (*) (res_voltage res) (res_current res)"
    by simp_all
qed

lemma default_temperature_nonzero: "temperature (params (init None)) \<noteq> 0"
  by (simp add: init_def get_default_parameters_def)

lemma simulate_iv_curve_voltages:
  assumes "temperature (params self) \<noteq> 0" and "0 \<le> N"
  shows "\<exists>res. fst (simulate_iv_curve self (Some (lo, hi)) N) = Inr res \<and>
               length (res_voltage res) = nat N \<and>
               (\<forall>i < nat N. res_voltage res ! i =
                  (if N = 1 then lo else lo + real i * ((hi - lo) / real_of_int (N - 1))))"
proof -
  have r: "(lo, hi) = (case Some (lo, hi) of None \<Rightarrow> (1, 5 / 2) | Some r \<Rightarrow> r)" by simp
  from simulate_iv_curve_points [OF assms r]
  obtain res where
    "simulate_iv_curve self (Some (lo, hi)) N = (Inr res, self\<lparr>results := Some res\<rparr>)"
    "length (res_voltage res) = nat N"
    "\<forall>i < nat N. res_voltage res ! i =
        (if N = 1 then lo else lo + real i * ((hi - lo) / real_of_int (N - 1)))"
    by blast
  then show ?thesis by (intro exI [of _ res]) simp
qed

subsection \<open>Energy efficiency\<close>

text \<open>
  Rounding to a double in the normal range changes a value by a factor between
  \<open>1 - 2^-53\<close> and \<open>1 + 2^-53\<close>.
\<close>

lemma round_half_even_error: "\<bar>of_int (round_half_even q) - q\<bar> \<le> 1 / 2"
proof -
  have "of_int \<lfloor>q\<rfloor> \<le> q" "q < of_int \<lfloor>q\<rfloor> + 1" by linarith+
  then show ?thesis
    by (auto simp: round_half_even_def Let_def)
qed

lemma floor_log2_bounds:
  assumes "0 < a"
  shows "2 powr of_int \<lfloor>log 2 a\<rfloor> \<le> a" and "a < 2 powr of_int (\<lfloor>log 2 a\<rfloor> + 1)"
proof -
  have "\<lfloor>log 2 a\<rfloor> = \<lfloor>log 2 a\<rfloor>" by simp
  then have "2 powr of_int \<lfloor>log 2 a\<rfloor> \<le> a \<and> a < 2 powr (of_int \<lfloor>log 2 a\<rfloor> + 1)"
    using floor_log_eq_powr_iff [OF assms, of 2 "\<lfloor>log 2 a\<rfloor>"] by simp
  then show "2 powr of_int \<lfloor>log 2 a\<rfloor> \<le> a" and "a < 2 powr of_int (\<lfloor>log 2 a\<rfloor> + 1)"
    by simp_all
qed

lemma pos_of_powr2_lower:
  fixes x :: real
  assumes "2 powr a \<le> x"
  shows "0 < x"
proof -
  have "0 < (2::real) powr a" by simp
  with assms show ?thesis by linarith
qed

lemma double_round_normal:
  assumes lo: "2 powr (- 1022) \<le> \<bar>x\<bar>" and hi: "\<bar>x\<bar> < 2 powr 1023"
  shows "\<exists>y. double_round x = Finite y \<and> \<bar>y - x\<bar> \<le> \<bar>x\<bar> / 2 ^ 53"
proof -
  define a where "a = \<bar>x\<bar>"
  have a0: "0 < a" unfolding a_def using lo by (rule pos_of_powr2_lower)
  then have x0: "x \<noteq> 0" unfolding a_def by auto
  define e where "e = \<lfloor>log 2 a\<rfloor>"
  have e1: "2 powr of_int e \<le> a" and e2: "a < 2 powr of_int (e + 1)"
    unfolding e_def using floor_log2_bounds [OF a0] by blast+
  have elo: "- 1022 \<le> e"
  proof -
    have "(2::real) powr (- 1022) < 2 powr of_int (e + 1)" using lo e2 unfolding a_def by linarith
    then have "(- 1022 :: real) < of_int (e + 1)" by simp
    then show ?thesis by linarith
  qed
  have ehi: "e \<le> 1022"
  proof (rule ccontr)
    assume "\<not> e \<le> 1022"
    then have "(1023::real) \<le> of_int e" by simp
    then have "(2::real) powr 1023 \<le> 2 powr of_int e" by (rule powr_mono) simp
    with hi e1 show False unfolding a_def by linarith
  qed
  define ulp :: real where "ulp = 2 powr of_int (e - 52)"
  have ulp0: "0 < ulp" unfolding ulp_def by simp
  have ulp_e: "ulp * 2 ^ 52 = 2 powr of_int e"
  proof -
    have p: "(2::real) powr 52 = 2 ^ 52" by (simp add: powr_numeral)
    have "(2::real) powr of_int e = 2 powr (of_int (e - 52) + 52)" by simp
    also have "\<dots> = 2 powr of_int (e - 52) * 2 powr 52" by (rule powr_add)
    finally show ?thesis unfolding ulp_def p by simp
  qed
  define n where "n = round_half_even (a / ulp)"
  define y where "y = of_int n * ulp"
  have "\<bar>of_int n - a / ulp\<bar> \<le> 1 / 2" unfolding n_def by (rule round_half_even_error)
  then have "\<bar>of_int n - a / ulp\<bar> * ulp \<le> 1 / 2 * ulp"
    using ulp0 by (intro mult_right_mono) simp_all
  moreover have "\<bar>of_int n - a / ulp\<bar> * ulp = \<bar>y - a\<bar>"
  proof -
    have "\<bar>of_int n - a / ulp\<bar> * ulp = \<bar>(of_int n - a / ulp) * ulp\<bar>"
      using ulp0 by (simp add: abs_mult)
    also have "(of_int n - a / ulp) * ulp = y - a"
      using ulp0 by (simp add: y_def field_simps)
    finally show ?thesis .
  qed
  ultimately have err: "\<bar>y - a\<bar> \<le> ulp / 2" by simp
  have "ulp / 2 = 2 powr of_int e / 2 ^ 53"
    using ulp_e by (simp add: field_simps)
  also have "\<dots> \<le> a / 2 ^ 53" using e1 by (simp add: divide_right_mono)
  finally have half: "ulp / 2 \<le> a / 2 ^ 53" .
  with err have rel: "\<bar>y - a\<bar> \<le> a / 2 ^ 53" by linarith
  have "a / 2 ^ 53 \<le> a" using a0 by (simp add: field_simps)
  with rel have "y \<le> 2 * a" by linarith
  also have "\<dots> < 2 * 2 powr 1023" using hi unfolding a_def by simp
  also have "\<dots> = 2 powr 1024"
  proof -
    have "(2::real) powr 1024 = 2 powr (1 + 1023)" by (simp del: powr_numeral)
    also have "\<dots> = 2 powr 1 * 2 powr 1023" by (rule powr_add)
    finally show ?thesis by (simp del: powr_numeral)
  qed
  finally have nov: "\<not> 2 powr 1024 \<le> y" by (simp del: powr_numeral)
  have m: "max \<lfloor>log 2 \<bar>x\<bar>\<rfloor> (- 1022) = e"
    using elo unfolding e_def a_def by simp
  have dr: "double_round x = Finite (sgn x * y)"
    using x0 nov unfolding double_round_def Let_def m
    by (simp add: y_def n_def ulp_def a_def del: powr_numeral)
  have "\<bar>sgn x * y - x\<bar> = \<bar>y - a\<bar>"
  proof (cases "0 < x")
    case True
    then show ?thesis by (simp add: a_def)
  next
    case False
    with x0 have "x < 0" by simp
    then have "sgn x * y - x = - (y - a)" by (simp add: a_def)
    then show ?thesis by simp
  qed
  with rel dr show ?thesis by (simp add: a_def)
qed


lemma relative_factor:
  fixes x y :: real
  assumes "x \<noteq> 0" and "\<bar>y - x\<bar> \<le> \<bar>x\<bar> / 2 ^ 53"
  shows "\<exists>f. y = x * f \<and> 1 - 1 / 2 ^ 53 \<le> f \<and> f \<le> 1 + 1 / 2 ^ 53"
proof -
  define f where "f = y / x"
  have yx: "y = x * f" using assms(1) by (simp add: f_def)
  have "\<bar>f - 1\<bar> = \<bar>y - x\<bar> / \<bar>x\<bar>"
  proof -
    have "f - 1 = (y - x) / x" using assms(1) by (simp add: f_def field_simps)
    then show ?thesis by (simp add: abs_divide)
  qed
  also have "\<dots> \<le> (\<bar>x\<bar> / 2 ^ 53) / \<bar>x\<bar>"
    using assms by (intro divide_right_mono) simp_all
  also have "\<dots> = 1 / 2 ^ 53" using assms(1) by simp
  finally have "\<bar>f - 1\<bar> \<le> 1 / 2 ^ 53" .
  then have "1 - 1 / 2 ^ 53 \<le> f" "f \<le> 1 + 1 / 2 ^ 53" by linarith+
  with yx show ?thesis by blast
qed

lemma factor_bounds:
  fixes f0 f1 f2 f3 :: real
  assumes "1 - 1 / 2 ^ 53 \<le> f0" "f0 \<le> 1 + 1 / 2 ^ 53"
    and "1 - 1 / 2 ^ 53 \<le> f1" "f1 \<le> 1 + 1 / 2 ^ 53"
    and "1 - 1 / 2 ^ 53 \<le> f2" "f2 \<le> 1 + 1 / 2 ^ 53"
    and "1 - 1 / 2 ^ 53 \<le> f3" "f3 \<le> 1 + 1 / 2 ^ 53"
  shows "\<bar>f0 * f1 * f3 / f2 - 1\<bar> \<le> 1 / 2 ^ 50"
    and "1 / 2 \<le> f0 * f1 / f2" and "f0 * f1 / f2 \<le> 2"
proof -
  define L :: real where "L = 1 - 1 / 2 ^ 53"
  define U :: real where "U = 1 + 1 / 2 ^ 53"
  have L0: "0 < L" and LU: "L \<le> U" by (simp_all add: L_def U_def)
  have U0: "0 < U" using L0 LU by linarith
  note b = assms [folded L_def U_def]
  have p0: "0 < f0" "0 < f1" "0 < f2" "0 < f3" using b L0 by linarith+
  have lo2: "L * L \<le> f0 * f1" using b L0 by (intro mult_mono) simp_all
  have hi2: "f0 * f1 \<le> U * U" using b p0 U0 by (intro mult_mono) simp_all
  have lo3: "L * L * L \<le> f0 * f1 * f3" using lo2 b L0 by (intro mult_mono) simp_all
  have hi3: "f0 * f1 * f3 \<le> U * U * U" using hi2 b p0 U0 by (intro mult_mono) simp_all
  have up: "f0 * f1 * f3 / f2 \<le> U * U * U / L"
    using hi3 b L0 p0 by (intro frac_le) simp_all
  have dn: "L * L * L / U \<le> f0 * f1 * f3 / f2"
    using lo3 b L0 p0 by (intro frac_le) simp_all
  have up2: "f0 * f1 / f2 \<le> U * U / L"
    using hi2 b L0 p0 by (intro frac_le) simp_all
  have dn2: "L * L / U \<le> f0 * f1 / f2"
    using lo2 b L0 p0 by (intro frac_le) simp_all
  have n1: "U * U * U / L \<le> 1 + 1 / 2 ^ 50" by (simp add: L_def U_def)
  have n2: "1 - 1 / 2 ^ 50 \<le> L * L * L / U" by (simp add: L_def U_def)
  have n3: "U * U / L \<le> 2" by (simp add: L_def U_def)
  have n4: "1 / 2 \<le> L * L / U" by (simp add: L_def U_def)
  from up dn n1 n2 show "\<bar>f0 * f1 * f3 / f2 - 1\<bar> \<le> 1 / 2 ^ 50" by linarith
  from dn2 n4 show "1 / 2 \<le> f0 * f1 / f2" by linarith
  from up2 n3 show "f0 * f1 / f2 \<le> 2" by linarith
qed

lemma powr2_prod_lower:
  fixes x y :: real
  assumes "2 powr a \<le> x" and "2 powr b \<le> y"
  shows "2 powr (a + b) \<le> x * y"
proof -
  have "0 \<le> (2::real) powr a" "0 \<le> (2::real) powr b" by simp_all
  with assms have "0 \<le> x" "0 \<le> y" by linarith+
  with assms have "(2::real) powr a * 2 powr b \<le> x * y"
    by (intro mult_mono) simp_all
  then show ?thesis by (simp only: powr_add)
qed

lemma powr2_prod_upper:
  fixes x y :: real
  assumes "0 \<le> x" and "0 \<le> y" and "x \<le> 2 powr a" and "y \<le> 2 powr b"
  shows "x * y \<le> 2 powr (a + b)"
proof -
  have "x * y \<le> (2::real) powr a * 2 powr b"
    using assms by (intro mult_mono) simp_all
  then show ?thesis by (simp only: powr_add)
qed

lemma double_round_between:
  fixes x :: real
  assumes "2 powr a \<le> \<bar>x\<bar>" and "\<bar>x\<bar> \<le> 2 powr b" and "- 1022 \<le> a" and "b < 1023"
  shows "\<exists>f. double_round x = Finite (x * f) \<and> 1 - 1 / 2 ^ 53 \<le> f \<and> f \<le> 1 + 1 / 2 ^ 53"
proof -
  have "(2::real) powr (- 1022) \<le> 2 powr a" using assms(3) by (intro powr_mono) simp_all
  with assms(1) have lo: "2 powr (- 1022) \<le> \<bar>x\<bar>" by linarith
  have "(2::real) powr b < 2 powr 1023" using assms(4) by (intro powr_less_mono) simp_all
  with assms(2) have hi: "\<bar>x\<bar> < 2 powr 1023" by linarith
  from double_round_normal [OF lo hi] obtain y where
    y: "double_round x = Finite y" "\<bar>y - x\<bar> \<le> \<bar>x\<bar> / 2 ^ 53" by blast
  have "0 < \<bar>x\<bar>" using assms(1) by (rule pos_of_powr2_lower)
  then have "x \<noteq> 0" by auto
  from relative_factor [OF this y(2)] y(1) show ?thesis by blast
qed


lemma factor_bounds4:
  fixes f1 f2 f3 f4 :: real
  assumes "1 - 1 / 2 ^ 53 \<le> f1" "f1 \<le> 1 + 1 / 2 ^ 53"
    and "1 - 1 / 2 ^ 53 \<le> f3" "f3 \<le> 1 + 1 / 2 ^ 53"
    and "1 - 1 / 2 ^ 53 \<le> f2" "f2 \<le> 1 + 1 / 2 ^ 53"
    and "1 - 1 / 2 ^ 53 \<le> f4" "f4 \<le> 1 + 1 / 2 ^ 53"
  shows "\<bar>f1 * f3 / (f2 * f4) - 1\<bar> \<le> 1 / 2 ^ 50"
proof -
  define L :: real where "L = 1 - 1 / 2 ^ 53"
  define U :: real where "U = 1 + 1 / 2 ^ 53"
  have L0: "0 < L" and LU: "L \<le> U" by (simp_all add: L_def U_def)
  have U0: "0 < U" using L0 LU by linarith
  note b = assms [folded L_def U_def]
  have p0: "0 < f1" "0 < f2" "0 < f3" "0 < f4" using b L0 by linarith+
  have lo: "L * L \<le> f1 * f3" using b L0 by (intro mult_mono) simp_all
  have hi: "f1 * f3 \<le> U * U" using b p0 U0 by (intro mult_mono) simp_all
  have lod: "L * L \<le> f2 * f4" using b L0 by (intro mult_mono) simp_all
  have hid: "f2 * f4 \<le> U * U" using b p0 U0 by (intro mult_mono) simp_all
  have LL: "0 < L * L" using L0 by simp
  have up: "f1 * f3 / (f2 * f4) \<le> U * U / (L * L)"
    using hi lod LL p0 by (intro frac_le) simp_all
  have dn: "L * L / (U * U) \<le> f1 * f3 / (f2 * f4)"
    using lo hid LL p0 by (intro frac_le) simp_all
  have n1: "U * U / (L * L) \<le> 1 + 1 / 2 ^ 50" by (simp add: L_def U_def)
  have n2: "1 - 1 / 2 ^ 50 \<le> L * L / (U * U)" by (simp add: L_def U_def)
  from up dn n1 n2 show ?thesis by linarith
qed

lemma energy_efficiency_in_range:
  assumes v: "2 powr (- kv) \<le> \<bar>voltage\<bar>" "\<bar>voltage\<bar> \<le> 2 powr kv"
    and c: "2 powr (- kc) \<le> \<bar>current\<bar>" "\<bar>current\<bar> \<le> 2 powr kc"
    and k: "0 \<le> kv" "0 \<le> kc" "kv + kc \<le> 1020"
  shows "\<exists>r fd. calculate_energy_efficiency self kind voltage current = (Inr (Finite r), self) \<and>
             \<bar>r - THEORETICAL_CELL_VOLTAGE / voltage\<bar>
               \<le> \<bar>THEORETICAL_CELL_VOLTAGE / voltage\<bar> / 2 ^ 50 \<and>
             ieee_divide (double_round THEORETICAL_CELL_VOLTAGE) (Finite voltage) = Finite fd \<and>
             \<bar>r - fd\<bar> \<le> \<bar>fd\<bar> / 2 ^ 50"
proof -
  define T where "T = THEORETICAL_CELL_VOLTAGE"
  have T1: "1 \<le> T" and T2: "T \<le> 2" and Tv: "T = 1229 / 1000"
    by (simp_all add: T_def THEORETICAL_CELL_VOLTAGE_def)
  have v0: "0 < \<bar>voltage\<bar>" using v(1) by (rule pos_of_powr2_lower)
  have c0: "0 < \<bar>current\<bar>" using c(1) by (rule pos_of_powr2_lower)
  have vn: "voltage \<noteq> 0" and cn: "current \<noteq> 0" using v0 c0 by auto
  \<comment> \<open>the constant\<close>
  have "(2::real) powr 0 \<le> \<bar>T\<bar>" "\<bar>T\<bar> \<le> 2 powr 1" using T1 T2 by simp_all
  from double_round_between [OF this] obtain f0 where
    f0: "double_round T = Finite (T * f0)" "1 - 1 / 2 ^ 53 \<le> f0" "f0 \<le> 1 + 1 / 2 ^ 53"
    by auto
  define t where "t = T * f0"
  have "T * (1 - 1 / 2 ^ 53) \<le> T * f0" using f0(2) T1 by (intro mult_left_mono) simp_all
  moreover have "1 \<le> T * (1 - 1 / 2 ^ 53)" by (simp add: Tv)
  ultimately have t1: "1 \<le> t" unfolding t_def by linarith
  have "T * f0 \<le> T * (1 + 1 / 2 ^ 53)" using f0(3) T1 by (intro mult_left_mono) simp_all
  moreover have "T * (1 + 1 / 2 ^ 53) \<le> 2" by (simp add: Tv)
  ultimately have t2: "t \<le> 2" unfolding t_def by linarith
  \<comment> \<open>the product of the constant and the current\<close>
  have tp: "(2::real) powr 0 \<le> t" "t \<le> 2 powr 1" using t1 t2 by simp_all
  have t0: "0 \<le> t" using t1 by linarith
  have "2 powr (0 + (- kc)) \<le> t * \<bar>current\<bar>"
    using tp(1) c(1) by (rule powr2_prod_lower)
  moreover have "t * \<bar>current\<bar> \<le> 2 powr (1 + kc)"
    using t0 _ tp(2) c(2) by (rule powr2_prod_upper) simp
  moreover have "\<bar>t * current\<bar> = t * \<bar>current\<bar>" using t1 by (simp add: abs_mult)
  ultimately have r1: "2 powr (0 + (- kc)) \<le> \<bar>t * current\<bar>" "\<bar>t * current\<bar> \<le> 2 powr (1 + kc)"
    by simp_all
  have "- 1022 \<le> 0 + (- kc)" "1 + kc < 1023" using k by linarith+
  from double_round_between [OF r1 this] obtain f1 where
    f1: "double_round (t * current) = Finite (t * current * f1)"
        "1 - 1 / 2 ^ 53 \<le> f1" "f1 \<le> 1 + 1 / 2 ^ 53"
    by auto
  \<comment> \<open>the product of the voltage and the current\<close>
  have "2 powr (- kv + (- kc)) \<le> \<bar>voltage\<bar> * \<bar>current\<bar>"
    using v(1) c(1) by (rule powr2_prod_lower)
  moreover have "\<bar>voltage\<bar> * \<bar>current\<bar> \<le> 2 powr (kv + kc)"
    using _ _ v(2) c(2) by (rule powr2_prod_upper) simp_all
  ultimately have r2: "2 powr (- kv + (- kc)) \<le> \<bar>voltage * current\<bar>"
            "\<bar>voltage * current\<bar> \<le> 2 powr (kv + kc)"
    by (simp_all only: abs_mult)
  have "- 1022 \<le> - kv + (- kc)" "kv + kc < 1023" using k by linarith+
  from double_round_between [OF r2 this] obtain f2 where
    f2: "double_round (voltage * current) = Finite (voltage * current * f2)"
        "1 - 1 / 2 ^ 53 \<le> f2" "f2 \<le> 1 + 1 / 2 ^ 53"
    by auto
  have "(0::real) < 1 - 1 / 2 ^ 53" by simp
  with f2(2) have f2p: "0 < f2" by linarith
  have an: "voltage * current * f2 \<noteq> 0" using vn cn f2p by simp
  \<comment> \<open>the quotient\<close>
  define g where "g = f0 * f1 / f2"
  define q where "q = (t * current * f1) / (voltage * current * f2)"
  have qeq: "q = (T / voltage) * g"
    using vn cn f2p by (simp add: q_def g_def t_def field_simps)
  have g12: "1 / 2 \<le> g" "g \<le> 2"
    unfolding g_def
    using factor_bounds(2,3) [OF f0(2,3) f1(2,3) f2(2,3) f0(2,3)] by simp_all
  have Tv_abs: "\<bar>T / voltage\<bar> = T / \<bar>voltage\<bar>" using T1 by (simp add: abs_divide)
  have lo1: "2 powr (- kv) \<le> \<bar>T / voltage\<bar>"
  proof -
    have "0 < (2::real) powr kv" by simp
    then have "1 / 2 powr kv \<le> T / \<bar>voltage\<bar>"
      using v(2) v0 T1 by (intro frac_le) simp_all
    moreover have "(1::real) / 2 powr kv = 2 powr (- kv)"
      by (simp add: powr_minus divide_inverse)
    ultimately show ?thesis unfolding Tv_abs by simp
  qed
  have hi1: "\<bar>T / voltage\<bar> \<le> 2 powr (1 + kv)"
  proof -
    have "0 < (2::real) powr (- kv)" by simp
    then have "T / \<bar>voltage\<bar> \<le> 2 / 2 powr (- kv)"
      using v(1) v0 T1 T2 by (intro frac_le) simp_all
    moreover have "(2::real) / 2 powr (- kv) = 2 powr (1 + kv)"
      by (simp add: powr_minus powr_add divide_inverse)
    ultimately show ?thesis unfolding Tv_abs by simp
  qed
  have gp: "(2::real) powr (- 1) \<le> g" "g \<le> 2 powr 1"
    using g12 by simp_all
  have g0: "0 \<le> g" using g12 by linarith
  have "2 powr (- kv + (- 1)) \<le> \<bar>T / voltage\<bar> * g"
    using lo1 gp(1) by (rule powr2_prod_lower)
  moreover have "\<bar>T / voltage\<bar> * g \<le> 2 powr (1 + kv + 1)"
    using _ g0 hi1 gp(2) by (rule powr2_prod_upper) simp
  moreover have "\<bar>q\<bar> = \<bar>T / voltage\<bar> * g" using g0 by (simp add: qeq abs_mult)
  ultimately have r3: "2 powr (- kv + (- 1)) \<le> \<bar>q\<bar>" "\<bar>q\<bar> \<le> 2 powr (1 + kv + 1)" by simp_all
  have "- 1022 \<le> - kv + (- 1)" "1 + kv + 1 < 1023" using k by linarith+
  from double_round_between [OF r3 this] obtain f3 where
    f3: "double_round q = Finite (q * f3)"
        "1 - 1 / 2 ^ 53 \<le> f3" "f3 \<le> 1 + 1 / 2 ^ 53"
    by auto
  define r where "r = q * f3"
  have req: "r = (T / voltage) * (f0 * f1 * f3 / f2)"
    by (simp add: r_def qeq g_def)
  have F: "\<bar>f0 * f1 * f3 / f2 - 1\<bar> \<le> 1 / 2 ^ 50"
    by (rule factor_bounds(1) [OF f0(2,3) f1(2,3) f2(2,3) f3(2,3)])
  have "r - T / voltage = (T / voltage) * (f0 * f1 * f3 / f2 - 1)"
    by (simp add: req algebra_simps)
  then have "\<bar>r - T / voltage\<bar> = \<bar>T / voltage\<bar> * \<bar>f0 * f1 * f3 / f2 - 1\<bar>"
    by (simp add: abs_mult)
  also have "\<dots> \<le> \<bar>T / voltage\<bar> * (1 / 2 ^ 50)"
    using F by (intro mult_left_mono) simp_all
  finally have err: "\<bar>r - T / voltage\<bar> \<le> \<bar>T / voltage\<bar> / 2 ^ 50" by simp
  have run: "calculate_energy_efficiency self kind voltage current = (Inr (Finite r), self)"
    using an f3(1)
    by (simp add: calculate_energy_efficiency_def calculate_hydrogen_production_def Let_def
          f0(1) [unfolded T_def] t_def [symmetric, unfolded T_def] f1(1) f2(1)
          float_divide_def q_def [symmetric] r_def)
  \<comment> \<open>the double quotient of the constant by the voltage\<close>
  have "(0::real) < 1 - 1 / 2 ^ 53" by simp
  with f0(2) f1(2) f3(2) have f0p: "0 < f0" and f1p: "0 < f1" and f3p: "0 < f3" by linarith+
  have "(1 / 2 :: real) \<le> 1 - 1 / 2 ^ 53" "(1 + 1 / 2 ^ 53 :: real) \<le> 2" by simp_all
  with f0(2,3) have f0h: "(2::real) powr (- 1) \<le> f0" "f0 \<le> 2 powr 1" by simp_all
  have lo4: "2 powr (- kv + (- 1)) \<le> \<bar>T / voltage\<bar> * f0"
    using lo1 f0h(1) by (rule powr2_prod_lower)
  have hi4: "\<bar>T / voltage\<bar> * f0 \<le> 2 powr (1 + kv + 1)"
    using _ _ hi1 f0h(2) by (rule powr2_prod_upper) (use f0p in simp_all)
  have eq4: "\<bar>t / voltage\<bar> = \<bar>T / voltage\<bar> * f0"
    using f0p by (simp add: t_def abs_mult abs_divide)
  have r4: "2 powr (- kv + (- 1)) \<le> \<bar>t / voltage\<bar>"
           "\<bar>t / voltage\<bar> \<le> 2 powr (1 + kv + 1)"
    unfolding eq4 by (fact lo4, fact hi4)
  from double_round_between [OF r4 \<open>- 1022 \<le> - kv + (- 1)\<close> \<open>1 + kv + 1 < 1023\<close>] obtain f4 where
    f4: "double_round (t / voltage) = Finite (t / voltage * f4)"
        "1 - 1 / 2 ^ 53 \<le> f4" "f4 \<le> 1 + 1 / 2 ^ 53"
    by auto
  have f4p: "0 < f4" using f4(2) \<open>(0::real) < 1 - 1 / 2 ^ 53\<close> by linarith
  define fd where "fd = t / voltage * f4"
  have fld: "ieee_divide (double_round T) (Finite voltage) = Finite fd"
    using vn by (simp add: f0(1) t_def [symmetric] f4(1) fd_def)
  have rfd: "r = fd * (f1 * f3 / (f2 * f4))"
    using vn f2p f4p by (simp add: req fd_def t_def field_simps)
  have G: "\<bar>f1 * f3 / (f2 * f4) - 1\<bar> \<le> 1 / 2 ^ 50"
    by (rule factor_bounds4 [OF f1(2,3) f3(2,3) f2(2,3) f4(2,3)])
  have "r - fd = fd * (f1 * f3 / (f2 * f4) - 1)"
    by (simp add: rfd algebra_simps)
  then have "\<bar>r - fd\<bar> = \<bar>fd\<bar> * \<bar>f1 * f3 / (f2 * f4) - 1\<bar>"
    by (simp add: abs_mult)
  also have "\<dots> \<le> \<bar>fd\<bar> * (1 / 2 ^ 50)"
    using G by (intro mult_left_mono) simp_all
  finally have errd: "\<bar>r - fd\<bar> \<le> \<bar>fd\<bar> / 2 ^ 50" by simp
  from run err fld errd show ?thesis unfolding T_def by blast
qed

lemma double_round_zero: "double_round 0 = Finite 0"
  by (simp add: double_round_def)

lemma energy_efficiency_zero_divisor:
  assumes "voltage * current = 0"
  shows "calculate_energy_efficiency self PythonFloat voltage current
           = (Inl ZeroDivisionError, self)"
    and "fst (calculate_energy_efficiency self NumpyFloat voltage current) = Inr NaN \<or>
         fst (calculate_energy_efficiency self NumpyFloat voltage current) = Inr Infinite"
proof -
  from assms have "double_round (voltage * current) = double_round 0"
    by (rule arg_cong)
  also have "double_round 0 = Finite 0" by (rule double_round_zero)
  finally have dz: "double_round (voltage * current) = Finite 0" .
  show "calculate_energy_efficiency self PythonFloat voltage current
           = (Inl ZeroDivisionError, self)"
    by (simp add: calculate_energy_efficiency_def calculate_hydrogen_production_def Let_def
          dz float_divide_def)
  define th where
    "th = float_mult (double_round THEORETICAL_CELL_VOLTAGE) (Finite current)"
  have "ieee_divide th (Finite 0) = NaN \<or> ieee_divide th (Finite 0) = Infinite"
    by (cases th) simp_all
  then show "fst (calculate_energy_efficiency self NumpyFloat voltage current) = Inr NaN \<or>
         fst (calculate_energy_efficiency self NumpyFloat voltage current) = Inr Infinite"
    by (simp add: calculate_energy_efficiency_def calculate_hydrogen_production_def Let_def
          dz float_divide_def th_def)
qed

lemma energy_efficiency_zero_current_numpy:
  "fst (calculate_energy_efficiency self NumpyFloat voltage 0) = Inr NaN"
proof -
  have "float_mult (double_round THEORETICAL_CELL_VOLTAGE) (Finite 0) = Finite 0 \<or>
        float_mult (double_round THEORETICAL_CELL_VOLTAGE) (Finite 0) = NaN"
    by (cases "double_round THEORETICAL_CELL_VOLTAGE") (simp_all add: double_round_zero)
  then show ?thesis
    by (auto simp: calculate_energy_efficiency_def calculate_hydrogen_production_def Let_def
          float_divide_def double_round_zero)
qed

lemma double_round_eval:
  assumes x0: "0 < x"
    and b1: "2 powr of_int e \<le> x" and b2: "x < 2 powr of_int (e + 1)"
    and e: "- 1022 \<le> e" "e \<le> 1022"
    and u: "ulp = 2 powr of_int (e - 52)"
    and n: "round_half_even (x / ulp) = n"
  shows "double_round x = Finite (of_int n * ulp)"
proof -
  have fl: "\<lfloor>log 2 x\<rfloor> = e"
    using floor_log_eq_powr_iff [OF x0, of 2 e] b1 b2 by simp
  have m: "max \<lfloor>log 2 \<bar>x\<bar>\<rfloor> (- 1022) = e" using x0 fl e(1) by simp
  have ulp0: "0 < ulp" unfolding u by simp
  have "\<bar>of_int n - x / ulp\<bar> \<le> 1 / 2" unfolding n [symmetric] by (rule round_half_even_error)
  then have "of_int n \<le> x / ulp + 1 / 2" by linarith
  then have "of_int n * ulp \<le> (x / ulp + 1 / 2) * ulp"
    using ulp0 by (intro mult_right_mono) simp_all
  also have "\<dots> = x + ulp / 2" using ulp0 by (simp add: field_simps)
  finally have y1: "of_int n * ulp \<le> x + ulp / 2" .
  have "ulp \<le> 2 powr of_int e" unfolding u by (intro powr_mono) simp_all
  with b1 ulp0 have "ulp / 2 \<le> x" by linarith
  with y1 have "of_int n * ulp \<le> 2 * x" by linarith
  also have "\<dots> < 2 * 2 powr of_int (e + 1)" using b2 by simp
  also have "\<dots> = 2 powr (1 + of_int (e + 1))" by (simp only: powr_add) simp
  also have "\<dots> \<le> 2 powr 1024" using e(2) by (intro powr_mono) simp_all
  finally have nov: "\<not> 2 powr 1024 \<le> of_int n * ulp" by (simp del: powr_numeral)
  have "sgn x = 1" using x0 by simp
  then show ?thesis
    using x0 nov unfolding double_round_def Let_def m
    by (simp add: n [symmetric] u del: powr_numeral)
qed

lemma double_of_constant:
  "double_round THEORETICAL_CELL_VOLTAGE = Finite (1383730985509585 / 1125899906842624)"
proof -
  have "double_round (1229 / 1000) = Finite (of_int 5534923942038340 * (1 / 4503599627370496))"
  proof (rule double_round_eval [where e = 0])
    show "(1 / 4503599627370496 :: real) = 2 powr of_int (0 - 52)"
      by (simp add: powr_minus_divide)
    show "round_half_even ((1229 / 1000) / (1 / 4503599627370496)) = 5534923942038340"
      by (simp add: round_half_even_def Let_def)
  qed simp_all
  then show ?thesis by (simp add: THEORETICAL_CELL_VOLTAGE_def)
qed


text \<open>
  The rounding is visible at ordinary inputs. At the voltage 1.5 and the current
  \<open>5404319552844595 / 2^54\<close> (the double nearest to 0.3) the method returns
  \<open>7379898589384454 / 2^53\<close>, printed 0.8193333333333335, while the double quotient
  of the constant by the voltage, which is the entry of the efficiency field, is
  \<open>7379898589384453 / 2^53\<close>, printed 0.8193333333333334.
\<close>

lemma energy_efficiency_rounding_example:
  "calculate_energy_efficiency self PythonFloat (3 / 2) (5404319552844595 / 18014398509481984)
     = (Inr (Finite (7379898589384454 / 9007199254740992)), self)"
  "ieee_divide (double_round THEORETICAL_CELL_VOLTAGE) (Finite (3 / 2))
     = Finite (7379898589384453 / 9007199254740992)"
proof -
  let ?t = "1383730985509585 / 1125899906842624 :: real"
  let ?c = "5404319552844595 / 18014398509481984 :: real"
  have tp: "double_round (?t * ?c) = Finite (830238591305751 / 2251799813685248)"
  proof -
    have "double_round (?t * ?c)
            = Finite (of_int 6641908730446008 * (1 / 18014398509481984))"
    proof (rule double_round_eval [where e = "- 2"])
      show "(1 / 18014398509481984 :: real) = 2 powr of_int (- 2 - 52)"
        by (simp add: powr_minus_divide)
      show "round_half_even (?t * ?c / (1 / 18014398509481984)) = 6641908730446008"
        by (simp add: round_half_even_def Let_def)
    qed (simp_all add: powr_minus_divide)
    then show ?thesis by simp
  qed
  have ap: "double_round (3 / 2 * ?c) = Finite (2026619832316723 / 4503599627370496)"
  proof -
    have "double_round (3 / 2 * ?c)
            = Finite (of_int 8106479329266892 * (1 / 18014398509481984))"
    proof (rule double_round_eval [where e = "- 2"])
      show "(1 / 18014398509481984 :: real) = 2 powr of_int (- 2 - 52)"
        by (simp add: powr_minus_divide)
      show "round_half_even (3 / 2 * ?c / (1 / 18014398509481984)) = 8106479329266892"
        by (simp add: round_half_even_def Let_def)
    qed (simp_all add: powr_minus_divide)
    then show ?thesis by simp
  qed
  have q: "double_round ((830238591305751 / 2251799813685248) / (2026619832316723 / 4503599627370496))
             = Finite (7379898589384454 / 9007199254740992)"
  proof -
    have "double_round ((830238591305751 / 2251799813685248) / (2026619832316723 / 4503599627370496))
            = Finite (of_int 7379898589384454 * (1 / 9007199254740992))"
    proof (rule double_round_eval [where e = "- 1"])
      show "(1 / 9007199254740992 :: real) = 2 powr of_int (- 1 - 52)"
        by (simp add: powr_minus_divide)
      show "round_half_even ((830238591305751 / 2251799813685248)
               / (2026619832316723 / 4503599627370496) / (1 / 9007199254740992))
             = 7379898589384454"
        by (simp add: round_half_even_def Let_def)
    qed (simp_all add: powr_minus_divide)
    then show ?thesis by simp
  qed
  have fld: "double_round (?t / (3 / 2)) = Finite (7379898589384453 / 9007199254740992)"
  proof -
    have "double_round (?t / (3 / 2))
            = Finite (of_int 7379898589384453 * (1 / 9007199254740992))"
    proof (rule double_round_eval [where e = "- 1"])
      show "(1 / 9007199254740992 :: real) = 2 powr of_int (- 1 - 52)"
        by (simp add: powr_minus_divide)
      show "round_half_even (?t / (3 / 2) / (1 / 9007199254740992)) = 7379898589384453"
        by (simp add: round_half_even_def Let_def)
    qed (simp_all add: powr_minus_divide)
    then show ?thesis by simp
  qed
  show "calculate_energy_efficiency self PythonFloat (3 / 2) ?c
     = (Inr (Finite (7379898589384454 / 9007199254740992)), self)"
    unfolding calculate_energy_efficiency_def calculate_hydrogen_production_def Let_def
      double_of_constant float_mult.simps tp ap
    using q by (simp add: float_divide_def)
  show "ieee_divide (double_round THEORETICAL_CELL_VOLTAGE) (Finite (3 / 2))
     = Finite (7379898589384453 / 9007199254740992)"
    unfolding double_of_constant using fld by simp
qed

text \<open>
  Claim C3, as stated, fails: with the current 0 the product \<open>voltage * current\<close> is
  zero and the quotient of \<open>calculate_energy_efficiency\<close> on Python floats raises
  \<^verbatim>\<open>ZeroDivisionError\<close>, so the method does not return
  \<open>THEORETICAL_CELL_VOLTAGE / voltage\<close> there.
\<close>

theorem energy_efficiency_zero_current_counterexample:
  "fst (calculate_energy_efficiency (init None) PythonFloat 2 0)
     \<noteq> Inr (Finite (THEORETICAL_CELL_VOLTAGE / 2))"
  by (simp add: calculate_energy_efficiency_def calculate_hydrogen_production_def Let_def
        float_divide_def double_round_zero)

text \<open>
  A current of 0 is a point of a simulated result: the sweep from 1.229 V has anode
  overpotential 0 at its first voltage, hence total current 0. On these numpy values
  the method returns \<^verbatim>\<open>nan\<close>, while the voltage-efficiency field there is 1.
\<close>

lemma simulate_zero_current:
  "\<exists>res. fst (simulate_iv_curve (init None) (Some (1229 / 1000, 2)) 2) = Inr res \<and>
         res_voltage res ! 0 = 1229 / 1000 \<and> res_current res ! 0 = 0 \<and>
         res_efficiency res ! 0 = Some 1 \<and>
         fst (calculate_energy_efficiency (init None) NumpyFloat
                (res_voltage res ! 0) (res_current res ! 0))
           = Inr NaN"
proof -
  note t = default_temperature_nonzero
  have r: "((1229 / 1000 :: real), (2 :: real))
             = (case Some (1229 / 1000, 2) of None \<Rightarrow> (1, 5 / 2) | Some r \<Rightarrow> r)"
    by simp
  have n: "(0::int) \<le> 2" by simp
  from simulate_iv_curve_points [OF t n r]
  obtain res where res: "simulate_iv_curve (init None) (Some (1229 / 1000, 2)) 2
             = (Inr res, (init None)\<lparr>results := Some res\<rparr>)"
    and len: "length (res_voltage res) = nat 2"
    and v: "\<forall>i < nat 2. res_voltage res ! i =
            (if (2::int) = 1 then 1229 / 1000
             else 1229 / 1000 + real i * ((2 - 1229 / 1000) / real_of_int (2 - 1)))
           \<and> (\<exists>eta_a eta_c i_a i_c.
             fst (calculate_overpotentials (init None) (res_voltage res ! i)
                    [''H+'' \<mapsto> (1 / 10000000) * 1000]) = (eta_a, eta_c) \<and>
             fst (butler_volmer (init None) eta_a (anode_i0 (params (init None)))
                    (alpha_a (params (init None))) 4) = Inr i_a \<and>
             fst (butler_volmer (init None) eta_c (cathode_i0 (params (init None)))
                    (alpha_c (params (init None))) 2) = Inr i_c \<and>
             res_current res ! i
               = min \<bar>i_a\<bar> \<bar>i_c\<bar> * (length_m (params (init None)) * width (params (init None))))"
    by blast
  have z: "(0::nat) < nat 2" by simp
  from v z have v0: "res_voltage res ! 0 = 1229 / 1000" by force
  from v z obtain eta_a eta_c i_a i_c where p:
     "fst (calculate_overpotentials (init None) (res_voltage res ! 0)
                    [''H+'' \<mapsto> (1 / 10000000) * 1000]) = (eta_a, eta_c)"
     "fst (butler_volmer (init None) eta_a (anode_i0 (params (init None)))
             (alpha_a (params (init None))) 4) = Inr i_a"
     "res_current res ! 0
        = min \<bar>i_a\<bar> \<bar>i_c\<bar> * (length_m (params (init None)) * width (params (init None)))"
    by blast
  from p(1) v0 have "eta_a = 0"
    by (simp add: calculate_overpotentials_def Let_def STANDARD_OXYGEN_POTENTIAL_def)
  with p(2) have "i_a = 0"
    using butler_volmer_value [OF t, of 0] by simp
  with p(3) have c0: "res_current res ! 0 = 0" by simp
  have f: "fst (simulate_iv_curve (init None) (Some (1229 / 1000, 2)) 2) = Inr res"
    using res by simp
  have "res_efficiency res = map (np_divide THEORETICAL_CELL_VOLTAGE) (res_voltage res)"
    by (rule simulate_iv_curve_fields(2) [OF f])
  then have e0: "res_efficiency res ! 0 = Some 1"
    using v0 len by (simp add: np_divide_def THEORETICAL_CELL_VOLTAGE_def)
  have "fst (calculate_energy_efficiency (init None) NumpyFloat
               (res_voltage res ! 0) (res_current res ! 0))
           = Inr NaN"
    unfolding c0 by (rule energy_efficiency_zero_current_numpy)
  with f v0 c0 e0 show ?thesis by blast
qed

text \<open>
  Claim C3, amended. For every voltage of magnitude between \<open>2^-20\<close> and \<open>2^20\<close> and
  every current of magnitude between \<open>2^-1000\<close> and \<open>2^1000\<close>,
  \<open>calculate_energy_efficiency\<close> returns a finite double that agrees with
  \<open>THEORETICAL_CELL_VOLTAGE / voltage\<close>, whatever the current, up to the rounding of
  its three floating-point operations (a relative error of at most \<open>2^-50\<close>); so it
  agrees up to that rounding, and not bit for bit, with the voltage-efficiency field at
  that voltage, both with the double quotient of the constant by the voltage that the
  field holds and with the field of every simulated result of the model; the instance
  is left as it was. When
  \<open>voltage * current\<close> is zero no efficiency is returned: Python floats raise
  \<^verbatim>\<open>ZeroDivisionError\<close>, numpy values give \<^verbatim>\<open>nan\<close> or an infinity.
\<close>

theorem energy_efficiency_rounded:
  "(2 powr (- 20) \<le> \<bar>voltage\<bar> \<and> \<bar>voltage\<bar> \<le> 2 powr 20 \<and>
    2 powr (- 1000) \<le> \<bar>current\<bar> \<and> \<bar>current\<bar> \<le> 2 powr 1000 \<longrightarrow>
      (\<exists>r. calculate_energy_efficiency self kind voltage current = (Inr (Finite r), self) \<and>
           \<bar>r - THEORETICAL_CELL_VOLTAGE / voltage\<bar>
             \<le> \<bar>THEORETICAL_CELL_VOLTAGE / voltage\<bar> / 2 ^ 50 \<and>
           (\<exists>fd. ieee_divide (double_round THEORETICAL_CELL_VOLTAGE) (Finite voltage) = Finite fd \<and>
                 \<bar>r - fd\<bar> \<le> \<bar>fd\<bar> / 2 ^ 50) \<and>
           (\<forall>m voltage_range N res i.
              fst (simulate_iv_curve m voltage_range N) = Inr res \<and>
              i < length (res_voltage res) \<and> res_voltage res ! i = voltage \<longrightarrow>
              (\<exists>e. res_efficiency res ! i = Some e \<and> \<bar>r - e\<bar> \<le> \<bar>e\<bar> / 2 ^ 50)))) \<and>
   (voltage * current = 0 \<longrightarrow>
      calculate_energy_efficiency self PythonFloat voltage current
        = (Inl ZeroDivisionError, self) \<and>
      (fst (calculate_energy_efficiency self NumpyFloat voltage current) = Inr NaN \<or>
       fst (calculate_energy_efficiency self NumpyFloat voltage current) = Inr Infinite))"
proof (intro conjI impI)
  assume h: "2 powr (- 20) \<le> \<bar>voltage\<bar> \<and> \<bar>voltage\<bar> \<le> 2 powr 20 \<and>
    2 powr (- 1000) \<le> \<bar>current\<bar> \<and> \<bar>current\<bar> \<le> 2 powr 1000"
  then have v: "2 powr (- 20) \<le> \<bar>voltage\<bar>" "\<bar>voltage\<bar> \<le> 2 powr 20"
    and c: "2 powr (- 1000) \<le> \<bar>current\<bar>" "\<bar>current\<bar> \<le> 2 powr 1000"
    by blast+
  have k: "(0::real) \<le> 20" "(0::real) \<le> 1000" "(20::real) + 1000 \<le> 1020" by simp_all
  from energy_efficiency_in_range [OF v c k, of self kind]
  obtain r fd where r: "calculate_energy_efficiency self kind voltage current = (Inr (Finite r), self)"
    "\<bar>r - THEORETICAL_CELL_VOLTAGE / voltage\<bar>
       \<le> \<bar>THEORETICAL_CELL_VOLTAGE / voltage\<bar> / 2 ^ 50"
    and fd: "ieee_divide (double_round THEORETICAL_CELL_VOLTAGE) (Finite voltage) = Finite fd"
    "\<bar>r - fd\<bar> \<le> \<bar>fd\<bar> / 2 ^ 50"
    by blast
  have vn: "voltage \<noteq> 0" using pos_of_powr2_lower [OF v(1)] by auto
  have "\<exists>e. res_efficiency res ! i = Some e \<and> \<bar>r - e\<bar> \<le> \<bar>e\<bar> / 2 ^ 50"
    if a: "fst (simulate_iv_curve m voltage_range N) = Inr res \<and>
           i < length (res_voltage res) \<and> res_voltage res ! i = voltage"
    for m voltage_range N res i
  proof -
    from a have "res_efficiency res = map (np_divide THEORETICAL_CELL_VOLTAGE) (res_voltage res)"
      using simulate_iv_curve_fields(2) by blast
    with a vn have "res_efficiency res ! i = Some (THEORETICAL_CELL_VOLTAGE / voltage)"
      by (simp add: np_divide_def)
    with r(2) show ?thesis by blast
  qed
  with r fd show "\<exists>r. calculate_energy_efficiency self kind voltage current = (Inr (Finite r), self) \<and>
           \<bar>r - THEORETICAL_CELL_VOLTAGE / voltage\<bar>
             \<le> \<bar>THEORETICAL_CELL_VOLTAGE / voltage\<bar> / 2 ^ 50 \<and>
           (\<exists>fd. ieee_divide (double_round THEORETICAL_CELL_VOLTAGE) (Finite voltage) = Finite fd \<and>
                 \<bar>r - fd\<bar> \<le> \<bar>fd\<bar> / 2 ^ 50) \<and>
           (\<forall>m voltage_range N res i.
              fst (simulate_iv_curve m voltage_range N) = Inr res \<and>
              i < length (res_voltage res) \<and> res_voltage res ! i = voltage \<longrightarrow>
              (\<exists>e. res_efficiency res ! i = Some e \<and> \<bar>r - e\<bar> \<le> \<bar>e\<bar> / 2 ^ 50))"
    by blast
next
  assume z: "voltage * current = 0"
  show "calculate_energy_efficiency self PythonFloat voltage current
        = (Inl ZeroDivisionError, self)"
    by (rule energy_efficiency_zero_divisor(1) [OF z])
  show "fst (calculate_energy_efficiency self NumpyFloat voltage current) = Inr NaN \<or>
       fst (calculate_energy_efficiency self NumpyFloat voltage current) = Inr Infinite"
    by (rule energy_efficiency_zero_divisor(2) [OF z])
qed

theorem energy_efficiency_rounded_witness:
  "2 powr (- 20) \<le> \<bar>2 :: real\<bar> \<and> \<bar>2 :: real\<bar> \<le> 2 powr 20 \<and>
   2 powr (- 1000) \<le> \<bar>1 :: real\<bar> \<and> \<bar>1 :: real\<bar> \<le> 2 powr 1000 \<and>
   (\<exists>r. calculate_energy_efficiency (init None) PythonFloat 2 1 = (Inr (Finite r), init None) \<and>
        \<bar>r - THEORETICAL_CELL_VOLTAGE / 2\<bar> \<le> \<bar>THEORETICAL_CELL_VOLTAGE / 2\<bar> / 2 ^ 50 \<and>
        (\<exists>fd. ieee_divide (double_round THEORETICAL_CELL_VOLTAGE) (Finite 2) = Finite fd \<and>
              \<bar>r - fd\<bar> \<le> \<bar>fd\<bar> / 2 ^ 50) \<and>
        (\<exists>res e. fst (simulate_iv_curve (init None) (Some (2, 3)) 1) = Inr res \<and>
           res_voltage res ! 0 = 2 \<and> res_efficiency res ! 0 = Some e \<and>
           \<bar>r - e\<bar> \<le> \<bar>e\<bar> / 2 ^ 50)) \<and>
   (2 :: real) * 0 = 0 \<and>
   calculate_energy_efficiency (init None) PythonFloat 2 0 = (Inl ZeroDivisionError, init None)"
proof -
  have two: "\<bar>2 :: real\<bar> = 2 powr 1" and one: "(2 :: real) powr 0 = \<bar>1\<bar>" by simp_all
  have "(2 :: real) powr (- 20) \<le> 2 powr 1" by (intro powr_mono) simp_all
  then have h1: "2 powr (- 20) \<le> \<bar>2 :: real\<bar>" unfolding two .
  have "(2 :: real) powr 1 \<le> 2 powr 20" by (intro powr_mono) simp_all
  then have h2: "\<bar>2 :: real\<bar> \<le> 2 powr 20" unfolding two .
  have "(2 :: real) powr (- 1000) \<le> 2 powr 0" by (intro powr_mono) simp_all
  then have h3: "2 powr (- 1000) \<le> \<bar>1 :: real\<bar>" unfolding one .
  have "(2 :: real) powr 0 \<le> 2 powr 1000" by (intro powr_mono) simp_all
  then have h4: "\<bar>1 :: real\<bar> \<le> 2 powr 1000" unfolding one .
  have z: "(2 :: real) * 0 = 0" by simp
  note th1 = energy_efficiency_rounded [of 2 1 "init None" PythonFloat]
  note th0 = energy_efficiency_rounded [of 2 0 "init None" PythonFloat]
  from th1 h1 h2 h3 h4 obtain r where
    r: "calculate_energy_efficiency (init None) PythonFloat 2 1 = (Inr (Finite r), init None)"
       "\<bar>r - THEORETICAL_CELL_VOLTAGE / 2\<bar> \<le> \<bar>THEORETICAL_CELL_VOLTAGE / 2\<bar> / 2 ^ 50"
       "\<exists>fd. ieee_divide (double_round THEORETICAL_CELL_VOLTAGE) (Finite 2) = Finite fd \<and>
              \<bar>r - fd\<bar> \<le> \<bar>fd\<bar> / 2 ^ 50"
       "\<forall>m voltage_range N res i.
              fst (simulate_iv_curve m voltage_range N) = Inr res \<and>
              i < length (res_voltage res) \<and> res_voltage res ! i = 2 \<longrightarrow>
              (\<exists>e. res_efficiency res ! i = Some e \<and> \<bar>r - e\<bar> \<le> \<bar>e\<bar> / 2 ^ 50)"
    by blast
  obtain res where res: "fst (simulate_iv_curve (init None) (Some (2, 3)) 1) = Inr res"
    "length (res_voltage res) = nat 1"
    "\<forall>i < nat 1. res_voltage res ! i =
        (if (1::int) = 1 then 2 else 2 + real i * ((3 - 2) / real_of_int (1 - 1)))"
    using simulate_iv_curve_voltages [OF default_temperature_nonzero, of 1 2 3] by auto
  from res(2) have l: "0 < length (res_voltage res)" by simp
  from res(3) have v0: "res_voltage res ! 0 = 2" by simp
  from r(4) res(1) l v0 obtain e where
    e: "res_efficiency res ! 0 = Some e" "\<bar>r - e\<bar> \<le> \<bar>e\<bar> / 2 ^ 50"
    by blast
  from th0 z have zd: "calculate_energy_efficiency (init None) PythonFloat 2 0
                         = (Inl ZeroDivisionError, init None)"
    by blast
  from h1 h2 h3 h4 r(1,2,3) res(1) v0 e z zd show ?thesis by blast
qed

subsection \<open>Results before any simulation\<close>

lemma plot_results_self: "snd (plot_results s save_path) = s"
  by (simp add: plot_results_def Let_def split: option.splits)

lemma calculate_energy_efficiency_self: "snd (calculate_energy_efficiency s k v i) = s"
  by (simp add: calculate_energy_efficiency_def calculate_hydrogen_production_def Let_def)

lemma never_simulated_results: "never_simulated s \<Longrightarrow> results s = None"
proof (induction rule: never_simulated.induct)
  case (fresh ps)
  show ?case by (simp add: init_def)
next
  case (after_butler_volmer s eta i0 alpha n)
  then show ?case by (simp add: butler_volmer_self)
next
  case (after_calculate_overpotentials s v c)
  then show ?case by (simp add: calculate_overpotentials_self)
next
  case (after_calculate_hydrogen_production s i)
  then show ?case by (simp add: calculate_hydrogen_production_def)
next
  case (after_calculate_energy_efficiency s k v i)
  then show ?case by (simp add: calculate_energy_efficiency_self)
next
  case (after_plot_results s save_path)
  then show ?case by (simp add: plot_results_self)
qed

text \<open>
  Claim C7. On an instance on which \<open>simulate_iv_curve\<close> has never been invoked,
  \<open>plot_results\<close>, the method that reads the results, fails with the
  \<^verbatim>\<open>ValueError\<close> "No results to plot. Run simulation first." and returns no figure.
\<close>

theorem plot_results_unavailable:
  assumes "never_simulated self"
  shows "plot_results self save_path
           = (Inl (ValueError ''No results to plot. Run simulation first.''), self)"
  using never_simulated_results [OF assms] by (simp add: plot_results_def)

theorem plot_results_unavailable_witness:
  "never_simulated (snd (butler_volmer (init None) 0 1 (1 / 2) 4)) \<and>
   plot_results (snd (butler_volmer (init None) 0 1 (1 / 2) 4)) None
     = (Inl (ValueError ''No results to plot. Run simulation first.''), init None)"
proof -
  have n: "never_simulated (snd (butler_volmer (init None) 0 1 (1 / 2) 4))"
    by (intro never_simulated.intros)
  from plot_results_unavailable [OF n, of None] n show ?thesis
    by (simp add: butler_volmer_self)
qed

subsection \<open>Sign and size of the current density\<close>






subsection \<open>Interpolation against the loaded table\<close>

lemma sorted_le_last:
  fixes x :: real
  shows "sorted xs \<Longrightarrow> x \<in> set xs \<Longrightarrow> x \<le> last xs"
  by (induction xs) auto

lemma interp_from_sample:
  assumes "sorted_wrt (<) (x0 # map fst rest)" and "(x, y) \<in> set ((x0, y0) # rest)"
  shows "interp_from x (x0, y0) rest = y"
  using assms
proof (induction rest arbitrary: x0 y0)
  case Nil
  then show ?case by simp
next
  case (Cons p rest)
  obtain x1 y1 where p: "p = (x1, y1)" by (cases p)
  from Cons.prems(1) have lt: "x0 < x1" and srt: "sorted_wrt (<) (x1 # map fst rest)"
    and all: "\<forall>q \<in> set rest. x1 < fst q"
    by (auto simp: p)
  show ?case
  proof (cases "(x, y) = (x0, y0)")
    case True
    with lt show ?thesis by (simp add: p)
  next
    case False
    with Cons.prems(2) have mem: "(x, y) \<in> set ((x1, y1) # rest)" by (auto simp: p)
    have ge: "x1 \<le> x"
    proof (cases "(x, y) = (x1, y1)")
      case True then show ?thesis by simp
    next
      case False
      with mem have "(x, y) \<in> set rest" by auto
      with all show ?thesis by force
    qed
    from Cons.IH [OF srt mem] ge show ?thesis by (simp add: p)
  qed
qed

lemma np_interp_sample:
  assumes "sorted_wrt (<) (map voltage_V tbl)" and "r \<in> set tbl"
  shows "np_interp (voltage_V r) (map voltage_V tbl) (map current_density_A_m2 tbl)
           = Inr (current_density_A_m2 r)"
proof -
  from assms(2) obtain r0 rest where tbl: "tbl = r0 # rest" by (cases tbl) auto
  let ?ps = "map (\<lambda>q. (voltage_V q, current_density_A_m2 q)) rest"
  have z: "zip (map voltage_V rest) (map current_density_A_m2 rest) = ?ps"
    by (induction rest) simp_all
  have f: "map fst ?ps = map voltage_V rest" by simp
  have srt: "sorted_wrt (<) (voltage_V r0 # map fst ?ps)"
    using assms(1) unfolding f by (simp add: tbl)
  have mem: "(voltage_V r, current_density_A_m2 r)
               \<in> set ((voltage_V r0, current_density_A_m2 r0) # ?ps)"
    using assms(2) by (auto simp: tbl)
  have lo: "\<not> voltage_V r < voltage_V r0"
    using assms by (auto simp: tbl)
  have hi: "\<not> last (map voltage_V tbl) < voltage_V r"
  proof -
    have "sorted (map voltage_V tbl)"
      using assms(1) by (simp add: sorted_wrt_mono_rel [of _ "(<)" "(\<le>)"] )
    moreover have "voltage_V r \<in> set (map voltage_V tbl)" using assms(2) by simp
    ultimately have "voltage_V r \<le> last (map voltage_V tbl)"
      by (rule sorted_le_last)
    then show ?thesis by simp
  qed
  have "interp_from (voltage_V r) (voltage_V r0, current_density_A_m2 r0) ?ps
          = current_density_A_m2 r"
    by (rule interp_from_sample [OF srt mem])
  with lo hi show ?thesis
    unfolding np_interp_def by (simp add: tbl z del: last.simps)
qed


lemma interpolate_current_loaded:
  assumes "iv_data self = Some tbl"
  shows "interpolate_current v self fs
           = (np_interp v (map voltage_V tbl) (map current_density_A_m2 tbl), self, fs)"
  using assms by (simp add: interpolate_current_def ensure_iv_data_def and_then_def)

lemma np_interp_below:
  assumes "tbl \<noteq> []" and "v < voltage_V (hd tbl)"
  shows "np_interp v (map voltage_V tbl) (map current_density_A_m2 tbl)
           = Inr (current_density_A_m2 (hd tbl))"
  using assms by (simp add: np_interp_def hd_map)

lemma np_interp_above:
  assumes "tbl \<noteq> []" and "voltage_V (last tbl) < v" and "sorted_wrt (<) (map voltage_V tbl)"
  shows "np_interp v (map voltage_V tbl) (map current_density_A_m2 tbl)
           = Inr (current_density_A_m2 (last tbl))"
proof -
  have "sorted (map voltage_V tbl)"
    using assms(3) by (simp add: sorted_wrt_mono_rel [of _ "(<)" "(\<le>)"])
  moreover have "voltage_V (hd tbl) \<in> set (map voltage_V tbl)" using assms(1) by simp
  ultimately have "voltage_V (hd tbl) \<le> last (map voltage_V tbl)" by (rule sorted_le_last)
  with assms(1,2) have "\<not> v < voltage_V (hd tbl)" by (simp add: last_map)
  with assms(1,2) show ?thesis by (simp add: np_interp_def hd_map last_map)
qed

lemma np_interp_three_rows:
  assumes "map (\<lambda>r. (voltage_V r, current_density_A_m2 r)) tbl = [(1, 0), (3 / 2, 50), (2, 100)]"
  shows "np_interp (5 / 4) (map voltage_V tbl) (map current_density_A_m2 tbl) = Inr 25"
    and "np_interp 3 (map voltage_V tbl) (map current_density_A_m2 tbl) = Inr 100"
proof -
  have v: "map voltage_V tbl = [1, 3 / 2, 2]"
  proof -
    have "map voltage_V tbl = map fst (map (\<lambda>r. (voltage_V r, current_density_A_m2 r)) tbl)"
      by simp
    then show ?thesis unfolding assms by simp
  qed
  have c: "map current_density_A_m2 tbl = [0, 50, 100]"
  proof -
    have "map current_density_A_m2 tbl
            = map snd (map (\<lambda>r. (voltage_V r, current_density_A_m2 r)) tbl)"
      by simp
    then show ?thesis unfolding assms by simp
  qed
  show "np_interp (5 / 4) (map voltage_V tbl) (map current_density_A_m2 tbl) = Inr 25"
    unfolding v c by (simp add: np_interp_def)
  show "np_interp 3 (map voltage_V tbl) (map current_density_A_m2 tbl) = Inr 100"
    unfolding v c by (simp add: np_interp_def)
qed

text \<open>
  Claim C5. For every loaded IV table with strictly increasing voltages, interpolating
  at the voltage of a row of the table returns that row's current density;
  interpolating below the first or above the last voltage returns the current density
  of the first or last row; and for the table with voltages 1.0, 1.5, 2.0 and current
  densities 0, 50, 100, interpolating at 1.25 yields 25 and at 3.0 yields 100. The
  instance and the file system are left as they were.
\<close>

theorem interpolate_current_table:
  assumes "iv_data self = Some tbl" and "sorted_wrt (<) (map voltage_V tbl)"
  shows "(\<forall>r \<in> set tbl.
            interpolate_current (voltage_V r) self fs = (Inr (current_density_A_m2 r), self, fs)) \<and>
         (tbl \<noteq> [] \<longrightarrow>
            (\<forall>v. v < voltage_V (hd tbl) \<longrightarrow>
               interpolate_current v self fs = (Inr (current_density_A_m2 (hd tbl)), self, fs)) \<and>
            (\<forall>v. voltage_V (last tbl) < v \<longrightarrow>
               interpolate_current v self fs = (Inr (current_density_A_m2 (last tbl)), self, fs))) \<and>
         (map (\<lambda>r. (voltage_V r, current_density_A_m2 r)) tbl = [(1, 0), (3 / 2, 50), (2, 100)] \<longrightarrow>
            interpolate_current (5 / 4) self fs = (Inr 25, self, fs) \<and>
            interpolate_current 3 self fs = (Inr 100, self, fs))"
  unfolding interpolate_current_loaded [OF assms(1)]
proof (intro conjI ballI impI allI)
  fix r assume "r \<in> set tbl"
  then show "(np_interp (voltage_V r) (map voltage_V tbl) (map current_density_A_m2 tbl), self, fs)
               = (Inr (current_density_A_m2 r), self, fs)"
    by (simp add: np_interp_sample [OF assms(2)])
next
  fix v assume "tbl \<noteq> []" "v < voltage_V (hd tbl)"
  then show "(np_interp v (map voltage_V tbl) (map current_density_A_m2 tbl), self, fs)
               = (Inr (current_density_A_m2 (hd tbl)), self, fs)"
    by (simp add: np_interp_below)
next
  fix v assume "tbl \<noteq> []" "voltage_V (last tbl) < v"
  then show "(np_interp v (map voltage_V tbl) (map current_density_A_m2 tbl), self, fs)
               = (Inr (current_density_A_m2 (last tbl)), self, fs)"
    by (simp add: np_interp_above [OF _ _ assms(2)])
next
  assume t: "map (\<lambda>r. (voltage_V r, current_density_A_m2 r)) tbl = [(1, 0), (3 / 2, 50), (2, 100)]"
  show "(np_interp (5 / 4) (map voltage_V tbl) (map current_density_A_m2 tbl), self, fs)
          = (Inr 25, self, fs)"
    by (simp add: np_interp_three_rows(1) [OF t])
  show "(np_interp 3 (map voltage_V tbl) (map current_density_A_m2 tbl), self, fs)
          = (Inr 100, self, fs)"
    by (simp add: np_interp_three_rows(2) [OF t])
qed

theorem interpolate_current_table_witness:
  "iv_data \<lparr> data_path = ''data'',
             iv_data = Some [\<lparr> voltage_V = 1, current_density_A_m2 = 0, current_A = 0, uncertainty_A = 0 \<rparr>,
                             \<lparr> voltage_V = 3 / 2, current_density_A_m2 = 50, current_A = 1 / 20, uncertainty_A = 0 \<rparr>,
                             \<lparr> voltage_V = 2, current_density_A_m2 = 100, current_A = 1 / 10, uncertainty_A = 0 \<rparr>],
             h2_data = None \<rparr>
     = Some [\<lparr> voltage_V = 1, current_density_A_m2 = 0, current_A = 0, uncertainty_A = 0 \<rparr>,
             \<lparr> voltage_V = 3 / 2, current_density_A_m2 = 50, current_A = 1 / 20, uncertainty_A = 0 \<rparr>,
             \<lparr> voltage_V = 2, current_density_A_m2 = 100, current_A = 1 / 10, uncertainty_A = 0 \<rparr>] \<and>
   sorted_wrt (<) [1, 3 / 2, 2 :: real] \<and>
   fst (interpolate_current (3 / 2)
         \<lparr> data_path = ''data'',
           iv_data = Some [\<lparr> voltage_V = 1, current_density_A_m2 = 0, current_A = 0, uncertainty_A = 0 \<rparr>,
                           \<lparr> voltage_V = 3 / 2, current_density_A_m2 = 50, current_A = 1 / 20, uncertainty_A = 0 \<rparr>,
                           \<lparr> voltage_V = 2, current_density_A_m2 = 100, current_A = 1 / 10, uncertainty_A = 0 \<rparr>],
           h2_data = None \<rparr>
         \<lparr> iv_files = Map.empty, h2_files = Map.empty, reads = [] \<rparr>) = Inr 50 \<and>
   fst (interpolate_current (1 / 2)
         \<lparr> data_path = ''data'',
           iv_data = Some [\<lparr> voltage_V = 1, current_density_A_m2 = 0, current_A = 0, uncertainty_A = 0 \<rparr>,
                           \<lparr> voltage_V = 3 / 2, current_density_A_m2 = 50, current_A = 1 / 20, uncertainty_A = 0 \<rparr>,
                           \<lparr> voltage_V = 2, current_density_A_m2 = 100, current_A = 1 / 10, uncertainty_A = 0 \<rparr>],
           h2_data = None \<rparr>
         \<lparr> iv_files = Map.empty, h2_files = Map.empty, reads = [] \<rparr>) = Inr 0 \<and>
   fst (interpolate_current (5 / 4)
         \<lparr> data_path = ''data'',
           iv_data = Some [\<lparr> voltage_V = 1, current_density_A_m2 = 0, current_A = 0, uncertainty_A = 0 \<rparr>,
                           \<lparr> voltage_V = 3 / 2, current_density_A_m2 = 50, current_A = 1 / 20, uncertainty_A = 0 \<rparr>,
                           \<lparr> voltage_V = 2, current_density_A_m2 = 100, current_A = 1 / 10, uncertainty_A = 0 \<rparr>],
           h2_data = None \<rparr>
         \<lparr> iv_files = Map.empty, h2_files = Map.empty, reads = [] \<rparr>) = Inr 25 \<and>
   fst (interpolate_current 3
         \<lparr> data_path = ''data'',
           iv_data = Some [\<lparr> voltage_V = 1, current_density_A_m2 = 0, current_A = 0, uncertainty_A = 0 \<rparr>,
                           \<lparr> voltage_V = 3 / 2, current_density_A_m2 = 50, current_A = 1 / 20, uncertainty_A = 0 \<rparr>,
                           \<lparr> voltage_V = 2, current_density_A_m2 = 100, current_A = 1 / 10, uncertainty_A = 0 \<rparr>],
           h2_data = None \<rparr>
         \<lparr> iv_files = Map.empty, h2_files = Map.empty, reads = [] \<rparr>) = Inr 100"
proof -
  define tbl where "tbl =
     [\<lparr> voltage_V = 1, current_density_A_m2 = 0, current_A = 0, uncertainty_A = 0 \<rparr>,
      \<lparr> voltage_V = 3 / 2, current_density_A_m2 = 50, current_A = 1 / 20, uncertainty_A = 0 \<rparr>,
      \<lparr> voltage_V = 2, current_density_A_m2 = 100, current_A = 1 / 10, uncertainty_A = 0 \<rparr>]"
  define self where "self = \<lparr> data_path = ''data'', iv_data = Some tbl, h2_data = None \<rparr>"
  define fs where "fs = \<lparr> iv_files = Map.empty, h2_files = Map.empty, reads = ([] :: string list) \<rparr>"
  have a: "iv_data self = Some tbl" by (simp add: self_def)
  have b: "sorted_wrt (<) (map voltage_V tbl)" by (simp add: tbl_def)
  note th = interpolate_current_table [OF a b, of fs]
  have 1: "fst (interpolate_current (3 / 2) self fs) = Inr 50"
    using th by (simp add: tbl_def)
  have 2: "fst (interpolate_current (1 / 2) self fs) = Inr 0"
    using th by (simp add: tbl_def)
  have 3: "fst (interpolate_current (5 / 4) self fs) = Inr 25"
    using th by (simp add: tbl_def)
  have 4: "fst (interpolate_current 3 self fs) = Inr 100"
    using th by (simp add: tbl_def)
  from a b 1 2 3 4 show ?thesis
    unfolding self_def fs_def tbl_def by simp
qed

subsection \<open>Loading on demand\<close>




















subsection \<open>Tafel regression: failures and result\<close>

lemma curve_fit_few_points:
  assumes "length ydata < 2"
  shows "\<exists>e. curve_fit lm f xdata ydata p0 maxfev = Inl e"
  using assms by (simp add: curve_fit_def)

lemma curve_fit_no_convergence:
  assumes "lm f xdata ydata p0 maxfev = None"
  shows "\<exists>e. curve_fit lm f xdata ydata p0 maxfev = Inl e"
  using assms by (simp add: curve_fit_def)

lemma curve_fit_converged:
  assumes "2 \<le> length ydata" and "lm f xdata ydata p0 maxfev = Some r"
  shows "curve_fit lm f xdata ydata p0 maxfev = Inr r"
  using assms by (auto simp: curve_fit_def)

lemma fit_tafel_equation_error:
  assumes "ensure_iv_data self fs = (Inr tbl, s1, fs1)"
    and "curve_fit lm tafel_equation
           (map voltage_V (filter (\<lambda>r. lo \<le> voltage_V r \<and> voltage_V r \<le> hi) tbl))
           (map current_density_A_m2 (filter (\<lambda>r. lo \<le> voltage_V r \<and> voltage_V r \<le> hi) tbl))
           (1, 1 / 10) 5000 = Inl e"
  shows "fit_tafel_equation lm (lo, hi) self fs = (Inl e, s1, fs1)"
  using assms by (simp add: fit_tafel_equation_def and_then_def Let_def)

lemma fit_tafel_equation_result:
  assumes "ensure_iv_data self fs = (Inr tbl, s1, fs1)"
    and "curve_fit lm tafel_equation
           (map voltage_V (filter (\<lambda>r. lo \<le> voltage_V r \<and> voltage_V r \<le> hi) tbl))
           (map current_density_A_m2 (filter (\<lambda>r. lo \<le> voltage_V r \<and> voltage_V r \<le> hi) tbl))
           (1, 1 / 10) 5000 = Inr (popt, pcov)"
  shows "\<exists>fit. fit_tafel_equation lm (lo, hi) self fs = (Inr fit, s1, fs1) \<and>
               fit_a fit = fst popt \<and> fit_b fit = snd popt \<and>
               fit_covariance fit = pcov \<and> fit_voltage_range fit = (lo, hi)"
  using assms by (simp add: fit_tafel_equation_def and_then_def Let_def)

text \<open>
  Claim C6. The Tafel regression restricts the IV table to the rows whose voltage lies
  in the caller's inclusive range \<open>[lo, hi]\<close> (by default \<open>[1.2, 1.8]\<close>), hands them to
  the fit of \<open>i = exp ((eta - a) / b)\<close> with the initial guess \<open>a = 1.0\<close>, \<open>b = 0.1\<close> and
  5000 evaluations, and returns an error to the caller, and no result, whenever fewer
  than 2 rows fall in the range or the optimizer does not converge; otherwise it
  returns the fitted parameters, their covariance and the range.
\<close>

theorem fit_tafel_equation_failures:
  assumes "ensure_iv_data self fs = (Inr tbl, s1, fs1)"
    and "rows = filter (\<lambda>r. lo \<le> voltage_V r \<and> voltage_V r \<le> hi) tbl"
  shows "fit_tafel_equation_default_voltage_range = (12 / 10, 18 / 10) \<and>
         (b \<noteq> 0 \<longrightarrow> tafel_equation eta a b = Some (exp ((eta - a) / b))) \<and>
         (length rows < 2 \<longrightarrow>
            (\<exists>e. fit_tafel_equation lm (lo, hi) self fs = (Inl e, s1, fs1))) \<and>
         (lm tafel_equation (map voltage_V rows) (map current_density_A_m2 rows) (1, 1 / 10) 5000
            = None \<longrightarrow>
            (\<exists>e. fit_tafel_equation lm (lo, hi) self fs = (Inl e, s1, fs1))) \<and>
         (2 \<le> length rows \<and>
          lm tafel_equation (map voltage_V rows) (map current_density_A_m2 rows) (1, 1 / 10) 5000
            = Some (popt, pcov) \<longrightarrow>
            (\<exists>fit. fit_tafel_equation lm (lo, hi) self fs = (Inr fit, s1, fs1) \<and>
                   fit_a fit = fst popt \<and> fit_b fit = snd popt \<and>
                   fit_covariance fit = pcov \<and> fit_voltage_range fit = (lo, hi)))"
proof (intro conjI impI)
  show "fit_tafel_equation_default_voltage_range = (12 / 10, 18 / 10)"
    by (simp add: fit_tafel_equation_default_voltage_range_def)
next
  assume "b \<noteq> 0"
  then show "tafel_equation eta a b = Some (exp ((eta - a) / b))"
    by (simp add: tafel_equation_def np_divide_def)
next
  assume "length rows < 2"
  then have "length (map current_density_A_m2 rows) < 2" by simp
  then obtain e where "curve_fit lm tafel_equation (map voltage_V rows)
      (map current_density_A_m2 rows) (1, 1 / 10) 5000 = Inl e"
    using curve_fit_few_points by blast
  then show "\<exists>e. fit_tafel_equation lm (lo, hi) self fs = (Inl e, s1, fs1)"
    using fit_tafel_equation_error [OF assms(1)] unfolding assms(2) by blast
next
  assume "lm tafel_equation (map voltage_V rows) (map current_density_A_m2 rows) (1, 1 / 10) 5000
            = None"
  then obtain e where "curve_fit lm tafel_equation (map voltage_V rows)
      (map current_density_A_m2 rows) (1, 1 / 10) 5000 = Inl e"
    using curve_fit_no_convergence by blast
  then show "\<exists>e. fit_tafel_equation lm (lo, hi) self fs = (Inl e, s1, fs1)"
    using fit_tafel_equation_error [OF assms(1)] unfolding assms(2) by blast
next
  assume "2 \<le> length rows \<and>
          lm tafel_equation (map voltage_V rows) (map current_density_A_m2 rows) (1, 1 / 10) 5000
            = Some (popt, pcov)"
  then have "2 \<le> length (map current_density_A_m2 rows)"
    and "lm tafel_equation (map voltage_V rows) (map current_density_A_m2 rows) (1, 1 / 10) 5000
            = Some (popt, pcov)"
    by simp_all
  then have "curve_fit lm tafel_equation (map voltage_V rows)
      (map current_density_A_m2 rows) (1, 1 / 10) 5000 = Inr (popt, pcov)"
    by (rule curve_fit_converged)
  then show "\<exists>fit. fit_tafel_equation lm (lo, hi) self fs = (Inr fit, s1, fs1) \<and>
                   fit_a fit = fst popt \<and> fit_b fit = snd popt \<and>
                   fit_covariance fit = pcov \<and> fit_voltage_range fit = (lo, hi)"
    using fit_tafel_equation_result [OF assms(1)] unfolding assms(2) by blast
qed


theorem fit_tafel_equation_failures_witness:
  "length (filter (\<lambda>r. 12 / 10 \<le> voltage_V r \<and> voltage_V r \<le> 16 / 10)
      [\<lparr> voltage_V = 1, current_density_A_m2 = 0, current_A = 0, uncertainty_A = 0 \<rparr>,
       \<lparr> voltage_V = 3 / 2, current_density_A_m2 = 50, current_A = 1 / 20, uncertainty_A = 0 \<rparr>,
       \<lparr> voltage_V = 17 / 10, current_density_A_m2 = 80, current_A = 2 / 25, uncertainty_A = 0 \<rparr>]) < 2 \<and>
   (\<exists>e. fit_tafel_equation (\<lambda>f xs ys p0 maxfev. Some (p0, [[0, 0], [0, 0]])) (12 / 10, 16 / 10)
      \<lparr> data_path = ''data'',
        iv_data = Some
          [\<lparr> voltage_V = 1, current_density_A_m2 = 0, current_A = 0, uncertainty_A = 0 \<rparr>,
           \<lparr> voltage_V = 3 / 2, current_density_A_m2 = 50, current_A = 1 / 20, uncertainty_A = 0 \<rparr>,
           \<lparr> voltage_V = 17 / 10, current_density_A_m2 = 80, current_A = 2 / 25, uncertainty_A = 0 \<rparr>],
        h2_data = None \<rparr>
      \<lparr> iv_files = Map.empty, h2_files = Map.empty, reads = [] \<rparr>
    = (Inl e,
       \<lparr> data_path = ''data'',
        iv_data = Some
          [\<lparr> voltage_V = 1, current_density_A_m2 = 0, current_A = 0, uncertainty_A = 0 \<rparr>,
           \<lparr> voltage_V = 3 / 2, current_density_A_m2 = 50, current_A = 1 / 20, uncertainty_A = 0 \<rparr>,
           \<lparr> voltage_V = 17 / 10, current_density_A_m2 = 80, current_A = 2 / 25, uncertainty_A = 0 \<rparr>],
        h2_data = None \<rparr>,
       \<lparr> iv_files = Map.empty, h2_files = Map.empty, reads = [] \<rparr>)) \<and>
   (\<exists>e. fit_tafel_equation (\<lambda>f xs ys p0 maxfev. None) (12 / 10, 18 / 10)
      \<lparr> data_path = ''data'',
        iv_data = Some
          [\<lparr> voltage_V = 1, current_density_A_m2 = 0, current_A = 0, uncertainty_A = 0 \<rparr>,
           \<lparr> voltage_V = 3 / 2, current_density_A_m2 = 50, current_A = 1 / 20, uncertainty_A = 0 \<rparr>,
           \<lparr> voltage_V = 17 / 10, current_density_A_m2 = 80, current_A = 2 / 25, uncertainty_A = 0 \<rparr>],
        h2_data = None \<rparr>
      \<lparr> iv_files = Map.empty, h2_files = Map.empty, reads = [] \<rparr>
    = (Inl e,
       \<lparr> data_path = ''data'',
        iv_data = Some
          [\<lparr> voltage_V = 1, current_density_A_m2 = 0, current_A = 0, uncertainty_A = 0 \<rparr>,
           \<lparr> voltage_V = 3 / 2, current_density_A_m2 = 50, current_A = 1 / 20, uncertainty_A = 0 \<rparr>,
           \<lparr> voltage_V = 17 / 10, current_density_A_m2 = 80, current_A = 2 / 25, uncertainty_A = 0 \<rparr>],
        h2_data = None \<rparr>,
       \<lparr> iv_files = Map.empty, h2_files = Map.empty, reads = [] \<rparr>)) \<and>
   (\<exists>fit. fst (fit_tafel_equation (\<lambda>f xs ys p0 maxfev. Some (p0, [[0, 0], [0, 0]])) (12 / 10, 18 / 10)
      \<lparr> data_path = ''data'',
        iv_data = Some
          [\<lparr> voltage_V = 1, current_density_A_m2 = 0, current_A = 0, uncertainty_A = 0 \<rparr>,
           \<lparr> voltage_V = 3 / 2, current_density_A_m2 = 50, current_A = 1 / 20, uncertainty_A = 0 \<rparr>,
           \<lparr> voltage_V = 17 / 10, current_density_A_m2 = 80, current_A = 2 / 25, uncertainty_A = 0 \<rparr>],
        h2_data = None \<rparr>
      \<lparr> iv_files = Map.empty, h2_files = Map.empty, reads = [] \<rparr>) = Inr fit \<and>
      fit_a fit = 1 \<and> fit_b fit = 1 / 10 \<and> fit_voltage_range fit = (12 / 10, 18 / 10))"
proof -
  define tbl where "tbl =
     [\<lparr> voltage_V = 1, current_density_A_m2 = 0, current_A = 0, uncertainty_A = 0 \<rparr>,
      \<lparr> voltage_V = 3 / 2, current_density_A_m2 = 50, current_A = 1 / 20, uncertainty_A = 0 \<rparr>,
      \<lparr> voltage_V = 17 / 10, current_density_A_m2 = 80, current_A = 2 / 25, uncertainty_A = 0 \<rparr>]"
  define self where "self = \<lparr> data_path = ''data'', iv_data = Some tbl, h2_data = None \<rparr>"
  define fs where "fs = \<lparr> iv_files = (Map.empty :: string \<rightharpoonup> iv_row list),
                          h2_files = (Map.empty :: string \<rightharpoonup> h2_row list),
                          reads = ([] :: string list) \<rparr>"
  define ok :: optimizer where "ok = (\<lambda>f xs ys p0 maxfev. Some (p0, [[0, 0], [0, 0]]))"
  define stuck :: optimizer where "stuck = (\<lambda>f xs ys p0 maxfev. None)"
  define narrow where "narrow = filter (\<lambda>r. 12 / 10 \<le> voltage_V r \<and> voltage_V r \<le> 16 / 10) tbl"
  define wide where "wide = filter (\<lambda>r. 12 / 10 \<le> voltage_V r \<and> voltage_V r \<le> 18 / 10) tbl"
  have e: "ensure_iv_data self fs = (Inr tbl, self, fs)"
    by (simp add: ensure_iv_data_def self_def)
  have n: "length narrow < 2" by (simp add: narrow_def tbl_def)
  have w: "2 \<le> length wide" by (simp add: wide_def tbl_def)
  have 1: "\<exists>e. fit_tafel_equation ok (12 / 10, 16 / 10) self fs = (Inl e, self, fs)"
    using fit_tafel_equation_failures [OF e narrow_def, of 1 0 0 ok "(1, 1 / 10)" "[]"] n by blast
  have "stuck tafel_equation (map voltage_V wide) (map current_density_A_m2 wide) (1, 1 / 10) 5000
          = None"
    by (simp add: stuck_def)
  then have 2: "\<exists>e. fit_tafel_equation stuck (12 / 10, 18 / 10) self fs = (Inl e, self, fs)"
    using fit_tafel_equation_failures [OF e wide_def, of 1 0 0 stuck "(1, 1 / 10)" "[]"]
    by blast
  have "ok tafel_equation (map voltage_V wide) (map current_density_A_m2 wide) (1, 1 / 10) 5000
          = Some ((1, 1 / 10), [[0, 0], [0, 0]])"
    by (simp add: ok_def)
  with w have "\<exists>fit. fit_tafel_equation ok (12 / 10, 18 / 10) self fs = (Inr fit, self, fs) \<and>
      fit_a fit = fst (1 :: real, 1 / 10 :: real) \<and> fit_b fit = snd (1 :: real, 1 / 10 :: real) \<and>
      fit_covariance fit = [[0, 0], [0, 0]] \<and>
      fit_voltage_range fit = (12 / 10, 18 / 10)"
    using fit_tafel_equation_failures [OF e wide_def, of 1 0 0 ok "(1, 1 / 10)" "[[0, 0], [0, 0]]"]
    by blast
  then have fitted: "\<exists>fit. fst (fit_tafel_equation ok (12 / 10, 18 / 10) self fs) = Inr fit \<and>
      fit_a fit = 1 \<and> fit_b fit = 1 / 10 \<and> fit_voltage_range fit = (12 / 10, 18 / 10)"
    by force
  from n 1 2 fitted show ?thesis
    unfolding narrow_def self_def fs_def ok_def stuck_def tbl_def by blast
qed

end
